theory Spec2Isabelle
  imports Complex_Main "HOL-Library.Monad_Syntax"
begin

section \<open>The function analyzer script and the libraries it calls\<close>

text \<open>
  \<^verbatim>\<open>function_analyzer.py\<close> is a straight-line Streamlit script: it reads one string,
  hands it to SymPy, and prints what SymPy answers. Its own content is control flow:
  which branch runs, which calls are inside a \<^verbatim>\<open>try\<close>, what is appended to
  \<^verbatim>\<open>min_pts\<close> and \<^verbatim>\<open>max_pts\<close>, what is plotted. The model keeps exactly that.

  \<^item> SymPy and Matplotlib are not code of the repository. Their operations are the
    fields of the record \<open>libraries\<close>, over a type \<open>'e\<close> of expression objects and a
    type \<open>'s\<close> of set objects. A call that can raise returns \<open>exn + 'a\<close> (\<open>Inl\<close>
    the exception).
  \<^item> The text box of line 12 is the argument \<open>equation\<close> of the script.
  \<^item> Every \<^verbatim>\<open>st.*\<close> call appends one \<open>st_call\<close> to the page; the f-strings are
    kept as constructors that carry the interpolated objects.
  \<^item> A run is the list of calls made and how the script ended: it ran to its end,
    \<^verbatim>\<open>st.stop()\<close> halted it, or an exception nobody caught ended it.
  \<^item> NumPy floats are \<open>float64\<close>: a finite value, an infinity or NaN. Rounding is
    not modelled; finite values are the rationals they stand for.
\<close>

type_synonym exn = string

type_synonym symbol = string

datatype float64 = Finite rat | PosInf | NegInf | NaN

text \<open>\<^verbatim>\<open>np.isfinite\<close> on a float.\<close>

fun np_isfinite :: "float64 \<Rightarrow> bool" where
  "np_isfinite (Finite _) = True"
| "np_isfinite _ = False"

text \<open>
  \<^verbatim>\<open>np.linspace(start, stop, num)\<close>: \<open>num\<close> points, the step is
  \<open>(stop - start) / (num - 1)\<close>.
\<close>

definition np_linspace :: "rat \<Rightarrow> rat \<Rightarrow> nat \<Rightarrow> float64 list" where
  "np_linspace start stop num =
     map (\<lambda>i. Finite (start + of_nat i * ((stop - start) / of_nat (num - 1)))) [0..<num]"

text \<open>
  \<^verbatim>\<open>np.meshgrid(xs, ys)\<close>: two grids with one row per element of \<open>ys\<close>;
  \<open>X[i][j] = xs[j]\<close> and \<open>Y[i][j] = ys[i]\<close>.
\<close>

definition np_meshgrid :: "'a list \<Rightarrow> 'a list \<Rightarrow> 'a list list \<times> 'a list list" where
  "np_meshgrid xs ys = (map (\<lambda>_. xs) ys, map (\<lambda>y. map (\<lambda>_. y) xs) ys)"

text \<open>
  The SymPy calls of the script. Symbols are passed by name. \<open>sp_gt0 e\<close> is the truth
  value of \<^verbatim>\<open>e > 0\<close> as an \<^verbatim>\<open>if\<close> reads it (SymPy raises TypeError when it
  cannot decide, or when \<open>e\<close> is not real), \<open>sp_lt\<close> and \<open>sp_gt\<close> are the comparisons
  \<^verbatim>\<open>min\<close> and \<^verbatim>\<open>max\<close> make between keys, \<open>sp_det2 a b c d\<close> is
  \<^verbatim>\<open>Matrix([[a, b], [c, d]]).det()\<close>, \<open>sp_format4f\<close> is the format \<^verbatim>\<open>{val:.4f}\<close>,
  and the function \<open>sp_lambdify\<close> returns takes the arguments of one sample point.
  \<open>plt_plot\<close> stands for lines 67 to 72 (the figure of the 1D branch) and
  \<open>plt_plot_surface\<close> for lines 157 to 162 (the figure of the 2D branch), each with
  the arrays it is given.
\<close>

record ('e, 's) libraries =
  sp_sympify :: "string \<Rightarrow> exn + 'e"
  sp_free_symbols :: "'e \<Rightarrow> symbol list"
  sp_Symbol :: "symbol \<Rightarrow> 'e"
  sp_Mul :: "'e \<Rightarrow> 'e \<Rightarrow> 'e"
  sp_cos :: "'e \<Rightarrow> 'e"
  sp_sin :: "'e \<Rightarrow> 'e"
  sp_oo :: "'e"
  sp_neg :: "'e \<Rightarrow> 'e"
  sp_continuous_domain :: "'e \<Rightarrow> symbol \<Rightarrow> exn + 's"
  sp_Interval_oo :: "'s"
  sp_set_minus :: "'s \<Rightarrow> 's \<Rightarrow> 's"
  sp_union :: "'s \<Rightarrow> 's \<Rightarrow> 's"
  sp_is_EmptySet :: "'s \<Rightarrow> bool"
  sp_set_eq :: "'s \<Rightarrow> 's \<Rightarrow> bool"
  sp_diff :: "'e \<Rightarrow> symbol list \<Rightarrow> exn + 'e"
  sp_lambdify :: "symbol list \<Rightarrow> 'e \<Rightarrow> exn + (float64 list \<Rightarrow> exn + float64)"
  sp_limit :: "'e \<Rightarrow> symbol \<Rightarrow> 'e \<Rightarrow> exn + 'e"
  sp_solve :: "'e \<Rightarrow> symbol \<Rightarrow> exn + 'e list"
  sp_solve_dict :: "'e list \<Rightarrow> symbol list \<Rightarrow> exn + (symbol \<times> 'e) list list"
  sp_subs :: "'e \<Rightarrow> symbol \<Rightarrow> 'e \<Rightarrow> exn + 'e"
  sp_subs_dict :: "'e \<Rightarrow> (symbol \<times> 'e) list \<Rightarrow> exn + 'e"
  sp_evalf :: "'e \<Rightarrow> exn + 'e"
  sp_gt0 :: "'e \<Rightarrow> exn + bool"
  sp_lt0 :: "'e \<Rightarrow> exn + bool"
  sp_lt :: "'e \<Rightarrow> 'e \<Rightarrow> exn + bool"
  sp_gt :: "'e \<Rightarrow> 'e \<Rightarrow> exn + bool"
  sp_det2 :: "'e \<Rightarrow> 'e \<Rightarrow> 'e \<Rightarrow> 'e \<Rightarrow> exn + 'e"
  sp_format4f :: "'e \<Rightarrow> exn + string"
  plt_plot :: "float64 list \<Rightarrow> float64 list \<Rightarrow> 'e \<Rightarrow> exn + unit"
  plt_plot_surface ::
    "float64 list list \<Rightarrow> float64 list list \<Rightarrow> float64 list list \<Rightarrow> exn + unit"

subsection \<open>What the page shows\<close>

datatype ('e, 's) message =
    InvalidExpression exn
  | EnterValidFunction
  | ContinuousOverR
  | DiscontinuousAt 's
  | DifferentiableOverR
  | NotDifferentiableAt 's
  | CouldNotDetermineDifferentiability
  | DerivativeIs 'e
  | CouldNotComputeDerivative
  | LimitAtPlusInfinity 'e
  | LimitAtMinusInfinity 'e
  | CouldNotComputeLimits
  | GlobalMinimum 'e 'e
  | NoGlobalMinimum
  | GlobalMaximum 'e 'e
  | NoGlobalMaximum
  | ContinuousOverR2
  | DiscontinuitiesAlong 's
  | CouldNotDetermineContinuity
  | PartialsContinuous
  | MayNotBeDifferentiable
  | PartialX 'e
  | PartialY 'e
  | CouldNotComputePartials
  | PlottingFailed exn
  | RadialLimit 'e
  | GrowsToInfinity
  | DecreasesToMinusInfinity
  | CouldNotDetermineRadial
  | NoCriticalPoints
  | ClassifiedAt "(symbol \<times> 'e) list" string string
  | CouldNotClassify "(symbol \<times> 'e) list"
  | CouldNotFindCriticalPoints

text \<open>
  \<open>GlobalMinimum val pt\<close> is \<^verbatim>\<open>Global minimum: f(x) = {val} at x = {pt}\<close>, and
  \<open>ClassifiedAt pt val kind\<close> is \<^verbatim>\<open>At {pt}, f(x, y) = {val:.4f} -> **{kind}**\<close>.
\<close>

datatype 'e figure =
    LinePlot "float64 list" "float64 list" 'e
  | SurfacePlot "float64 list list" "float64 list list" "float64 list list"

datatype ('e, 's) st_call =
    st_title
  | st_header string
  | st_subheader string
  | st_success "('e, 's) message"
  | st_warning "('e, 's) message"
  | st_error "('e, 's) message"
  | st_info "('e, 's) message"
  | st_code "('e, 's) message"
  | st_write "('e, 's) message"
  | st_pyplot "'e figure"

datatype outcome = Finished | Stopped | Uncaught exn

type_synonym ('e, 's) page = "('e, 's) st_call list \<times> outcome"

text \<open>Statements in sequence: what follows runs only when what came before finished.\<close>

fun and_then :: "('e, 's) page \<Rightarrow> ('e, 's) page \<Rightarrow> ('e, 's) page" where
  "and_then (out, Finished) (out', r) = (out @ out', r)"
| "and_then (out, r) _ = (out, r)"

text \<open>
  Inside a \<^verbatim>\<open>try\<close> whose \<^verbatim>\<open>except\<close> does not look at the exception, a call
  either gives its value or leaves the block.
\<close>

fun attempt :: "exn + 'a \<Rightarrow> 'a option" where
  "attempt (Inl _) = None"
| "attempt (Inr v) = Some v"

definition say :: "('e, 's) st_call list \<Rightarrow> ('e, 's) page" where
  "say out = (out, Finished)"

fun in_sequence :: "('e, 's) page list \<Rightarrow> ('e, 's) page" where
  "in_sequence [] = ([], Finished)"
| "in_sequence (p # ps) = and_then p (in_sequence ps)"

subsection \<open>The 1D branch (lines 30 to 113)\<close>

text \<open>
  Lines 33 to 39, continuity. There is no \<^verbatim>\<open>try\<close> here: an exception of
  \<^verbatim>\<open>continuous_domain\<close> ends the script.
\<close>

definition continuity_1d :: "('e, 's) libraries \<Rightarrow> 'e \<Rightarrow> ('e, 's) page" where
  "continuity_1d L expr =
     (case sp_continuous_domain L expr ''x'' of
        Inl e \<Rightarrow> ([], Uncaught e)
      | Inr domain \<Rightarrow>
          (let discontinuities = sp_set_minus L (sp_Interval_oo L) domain
           in ([if sp_is_EmptySet L discontinuities then st_success ContinuousOverR
                else st_warning (DiscontinuousAt discontinuities)], Finished)))"

text \<open>
  Lines 43 to 53, differentiability, inside a \<^verbatim>\<open>try\<close>. The second component is the
  variable \<^verbatim>\<open>derivative\<close>: it stays unbound when \<^verbatim>\<open>sp.diff\<close> raises.
\<close>

definition differentiability_1d ::
  "('e, 's) libraries \<Rightarrow> 'e \<Rightarrow> ('e, 's) st_call list \<times> 'e option" where
  "differentiability_1d L expr =
     (case sp_diff L expr [''x''] of
        Inl _ \<Rightarrow> ([st_warning CouldNotDetermineDifferentiability], None)
      | Inr derivative \<Rightarrow>
          (case sp_continuous_domain L derivative ''x'' of
             Inl _ \<Rightarrow> ([st_warning CouldNotDetermineDifferentiability], Some derivative)
           | Inr diff_domain \<Rightarrow>
               (let diff_discont = sp_set_minus L (sp_Interval_oo L) diff_domain
                in ([if sp_is_EmptySet L diff_discont then st_success DifferentiableOverR
                     else st_warning (NotDifferentiableAt diff_discont)],
                    Some derivative))))"

text \<open>
  Lines 56 to 59: reading the unbound \<^verbatim>\<open>derivative\<close> raises NameError, which the
  bare \<^verbatim>\<open>except\<close> turns into the warning.
\<close>

definition derivative_display :: "'e option \<Rightarrow> ('e, 's) st_call list" where
  "derivative_display derivative =
     (case derivative of
        None \<Rightarrow> [st_warning CouldNotComputeDerivative]
      | Some d \<Rightarrow> [st_code (DerivativeIs d)])"

text \<open>
  Line 65, the list comprehension
  \<^verbatim>\<open>[f_np(v) if np.isfinite(f_np(v)) else np.nan for v in x_vals]\<close>.
  The test calls \<^verbatim>\<open>f_np(v)\<close> first; a finite answer makes the second call.
\<close>

fun y_vals :: "(float64 list \<Rightarrow> exn + float64) \<Rightarrow> float64 list \<Rightarrow> exn + float64 list" where
  "y_vals f_np [] = Inr []"
| "y_vals f_np (v # x_vals) =
     (case f_np [v] of
        Inl e \<Rightarrow> Inl e
      | Inr t \<Rightarrow>
          (case (if np_isfinite t then f_np [v] else Inr NaN) of
             Inl e \<Rightarrow> Inl e
           | Inr y \<Rightarrow>
               (case y_vals f_np x_vals of
                  Inl e \<Rightarrow> Inl e
                | Inr ys \<Rightarrow> Inr (y # ys))))"

text \<open>Lines 63 to 73, the plot, with no \<^verbatim>\<open>try\<close>.\<close>

definition plot_1d :: "('e, 's) libraries \<Rightarrow> 'e \<Rightarrow> ('e, 's) page" where
  "plot_1d L expr =
     (case sp_lambdify L [''x''] expr of
        Inl e \<Rightarrow> ([], Uncaught e)
      | Inr f_np \<Rightarrow>
          (let x_vals = np_linspace (- 10) 10 400
           in (case y_vals f_np x_vals of
                 Inl e \<Rightarrow> ([], Uncaught e)
               | Inr ys \<Rightarrow>
                   (case plt_plot L x_vals ys expr of
                      Inl e \<Rightarrow> ([], Uncaught e)
                    | Inr _ \<Rightarrow> ([st_pyplot (LinePlot x_vals ys expr)], Finished)))))"

text \<open>Lines 77 to 83: both limits are computed before either is written.\<close>

definition limits_1d :: "('e, 's) libraries \<Rightarrow> 'e \<Rightarrow> ('e, 's) st_call list" where
  "limits_1d L expr =
     (case do {
             lim_pos \<leftarrow> attempt (sp_limit L expr ''x'' (sp_oo L));
             lim_neg \<leftarrow> attempt (sp_limit L expr ''x'' (sp_neg L (sp_oo L)));
             Some [st_write (LimitAtPlusInfinity lim_pos),
                   st_write (LimitAtMinusInfinity lim_neg)]
           } of
        None \<Rightarrow> [st_warning CouldNotComputeLimits]
      | Some out \<Rightarrow> out)"

text \<open>
  Lines 93 to 99, the body of the \<^verbatim>\<open>try\<close> in the loop over the critical points.
  \<open>second\<close> and \<open>val\<close> are both computed before the first comparison; the lists are
  touched last, so an exception leaves them as they were.
\<close>

definition try_point ::
  "('e, 's) libraries \<Rightarrow> 'e \<Rightarrow> 'e \<Rightarrow> 'e \<Rightarrow> ('e \<times> 'e) list \<times> ('e \<times> 'e) list
     \<Rightarrow> (('e \<times> 'e) list \<times> ('e \<times> 'e) list) option" where
  "try_point L f_double expr pt pts =
     do {
       second \<leftarrow> attempt (sp_subs L f_double ''x'' pt);
       at_pt \<leftarrow> attempt (sp_subs L expr ''x'' pt);
       val \<leftarrow> attempt (sp_evalf L at_pt);
       above \<leftarrow> attempt (sp_gt0 L second);
       if above then Some (fst pts @ [(pt, val)], snd pts)
       else do {
         below \<leftarrow> attempt (sp_lt0 L second);
         Some (if below then (fst pts, snd pts @ [(pt, val)]) else pts)
       }
     }"

text \<open>Lines 92 to 101: \<^verbatim>\<open>except: continue\<close> keeps the lists and goes on.\<close>

fun min_max_pts ::
  "('e, 's) libraries \<Rightarrow> 'e \<Rightarrow> 'e \<Rightarrow> 'e list \<Rightarrow> ('e \<times> 'e) list \<times> ('e \<times> 'e) list
     \<Rightarrow> ('e \<times> 'e) list \<times> ('e \<times> 'e) list" where
  "min_max_pts L f_double expr [] pts = pts"
| "min_max_pts L f_double expr (pt # critical_points) pts =
     min_max_pts L f_double expr critical_points
       (case try_point L f_double expr pt pts of None \<Rightarrow> pts | Some pts' \<Rightarrow> pts')"

text \<open>
  Python's \<^verbatim>\<open>min(items, key=...)\<close> and \<^verbatim>\<open>max(items, key=...)\<close> on a list that
  is not empty: the first item is the best so far, and a later item replaces it when
  its key compares strictly better (\<^verbatim>\<open><\<close> for min, \<^verbatim>\<open>>\<close> for max). An exception
  of the comparison leaves the call.
\<close>

fun min_max ::
  "('e \<Rightarrow> 'e \<Rightarrow> exn + bool) \<Rightarrow> 'e \<times> 'e \<Rightarrow> ('e \<times> 'e) list \<Rightarrow> exn + 'e \<times> 'e" where
  "min_max better best [] = Inr best"
| "min_max better best (t # ts) =
     (case better (snd t) (snd best) of
        Inl e \<Rightarrow> Inl e
      | Inr b \<Rightarrow> min_max better (if b then t else best) ts)"

text \<open>Lines 103 to 107 and 109 to 113.\<close>

definition best_min :: "('e, 's) libraries \<Rightarrow> ('e \<times> 'e) list \<Rightarrow> ('e, 's) page" where
  "best_min L min_pts =
     (case min_pts of
        [] \<Rightarrow> ([st_info NoGlobalMinimum], Finished)
      | t # ts \<Rightarrow>
          (case min_max (sp_lt L) t ts of
             Inl e \<Rightarrow> ([], Uncaught e)
           | Inr best \<Rightarrow> ([st_success (GlobalMinimum (snd best) (fst best))], Finished)))"

definition best_max :: "('e, 's) libraries \<Rightarrow> ('e \<times> 'e) list \<Rightarrow> ('e, 's) page" where
  "best_max L max_pts =
     (case max_pts of
        [] \<Rightarrow> ([st_info NoGlobalMaximum], Finished)
      | t # ts \<Rightarrow>
          (case min_max (sp_gt L) t ts of
             Inl e \<Rightarrow> ([], Uncaught e)
           | Inr best \<Rightarrow> ([st_success (GlobalMaximum (snd best) (fst best))], Finished)))"

text \<open>
  Lines 87 to 113, the extrema. The two derivatives and \<^verbatim>\<open>sp.solve\<close> are outside every
  \<^verbatim>\<open>try\<close>.
\<close>

definition extrema_1d :: "('e, 's) libraries \<Rightarrow> 'e \<Rightarrow> ('e, 's) page" where
  "extrema_1d L expr =
     (case sp_diff L expr [''x''] of
        Inl e \<Rightarrow> ([], Uncaught e)
      | Inr f_prime \<Rightarrow>
          (case sp_diff L f_prime [''x''] of
             Inl e \<Rightarrow> ([], Uncaught e)
           | Inr f_double \<Rightarrow>
               (case sp_solve L f_prime ''x'' of
                  Inl e \<Rightarrow> ([], Uncaught e)
                | Inr critical_points \<Rightarrow>
                    (let pts = min_max_pts L f_double expr critical_points ([], [])
                     in and_then (best_min L (fst pts)) (best_max L (snd pts))))))"

text \<open>The branch, top to bottom. The emoji of the headings are left out.\<close>

definition analyze_1d :: "('e, 's) libraries \<Rightarrow> 'e \<Rightarrow> ('e, 's) page" where
  "analyze_1d L expr =
     in_sequence
       [say [st_header ''1D Function Analysis''],
        continuity_1d L expr,
        say [st_subheader ''Differentiability''],
        say (fst (differentiability_1d L expr)),
        say [st_subheader ''Derivative''],
        say (derivative_display (snd (differentiability_1d L expr))),
        say [st_subheader ''Plot''],
        plot_1d L expr,
        say [st_subheader ''Behavior at Infinity''],
        say (limits_1d L expr),
        say [st_subheader ''Global Min / Max''],
        extrema_1d L expr]"

subsection \<open>The 2D branch (lines 118 to 214)\<close>

text \<open>Lines 123 to 132, continuity along each axis, inside a \<^verbatim>\<open>try\<close>.\<close>

definition continuity_2d :: "('e, 's) libraries \<Rightarrow> 'e \<Rightarrow> ('e, 's) st_call list" where
  "continuity_2d L expr =
     (case do {
             domain_x \<leftarrow> attempt (sp_continuous_domain L expr ''x'');
             domain_y \<leftarrow> attempt (sp_continuous_domain L expr ''y'');
             Some (sp_union L (sp_set_minus L (sp_Interval_oo L) domain_x)
                              (sp_set_minus L (sp_Interval_oo L) domain_y))
           } of
        None \<Rightarrow> [st_warning CouldNotDetermineContinuity]
      | Some discont \<Rightarrow>
          [if sp_is_EmptySet L discont then st_success ContinuousOverR2
           else st_warning (DiscontinuitiesAlong discont)])"

text \<open>Lines 136 to 148, the partial derivatives, inside a \<^verbatim>\<open>try\<close>.\<close>

definition differentiability_2d :: "('e, 's) libraries \<Rightarrow> 'e \<Rightarrow> ('e, 's) st_call list" where
  "differentiability_2d L expr =
     (case do {
             fx \<leftarrow> attempt (sp_diff L expr [''x'']);
             fy \<leftarrow> attempt (sp_diff L expr [''y'']);
             fx_dom \<leftarrow> attempt (sp_continuous_domain L fx ''x'');
             fy_dom \<leftarrow> attempt (sp_continuous_domain L fy ''y'');
             Some [if sp_set_eq L fx_dom (sp_Interval_oo L) \<and> sp_set_eq L fy_dom (sp_Interval_oo L)
                   then st_success PartialsContinuous
                   else st_warning MayNotBeDifferentiable,
                   st_code (PartialX fx),
                   st_code (PartialY fy)]
           } of
        None \<Rightarrow> [st_warning CouldNotComputePartials]
      | Some out \<Rightarrow> out)"

text \<open>
  Line 156, \<^verbatim>\<open>Z = f_np(X, Y)\<close> on two grids of the same shape: the function applied
  point by point, nothing else done to its values. An exception at a point is an
  exception of the call.
\<close>

fun all_or_raise :: "(exn + 'a) list \<Rightarrow> exn + 'a list" where
  "all_or_raise [] = Inr []"
| "all_or_raise (r # rs) =
     (case r of
        Inl e \<Rightarrow> Inl e
      | Inr v \<Rightarrow> (case all_or_raise rs of Inl e \<Rightarrow> Inl e | Inr vs \<Rightarrow> Inr (v # vs)))"

definition Z_vals ::
  "(float64 list \<Rightarrow> exn + float64) \<Rightarrow> float64 list list \<Rightarrow> float64 list list
     \<Rightarrow> exn + float64 list list" where
  "Z_vals f_np X Y =
     all_or_raise
       (map (\<lambda>row. all_or_raise (map (\<lambda>p. f_np [fst p, snd p]) (zip (fst row) (snd row))))
            (zip X Y))"

text \<open>
  Lines 152 to 165: \<^verbatim>\<open>sp.lambdify\<close> is before the \<^verbatim>\<open>try\<close>, the sampling and the
  drawing are inside it, and \<^verbatim>\<open>except Exception as e\<close> prints the exception.
\<close>

definition plot_2d :: "('e, 's) libraries \<Rightarrow> 'e \<Rightarrow> ('e, 's) page" where
  "plot_2d L expr =
     (case sp_lambdify L [''x'', ''y''] expr of
        Inl e \<Rightarrow> ([], Uncaught e)
      | Inr f_np \<Rightarrow>
          (let range_vals = np_linspace (- 10) 10 100;
               X = fst (np_meshgrid range_vals range_vals);
               Y = snd (np_meshgrid range_vals range_vals)
           in (case Z_vals f_np X Y of
                 Inl e \<Rightarrow> ([st_error (PlottingFailed e)], Finished)
               | Inr Z \<Rightarrow>
                   (case plt_plot_surface L X Y Z of
                      Inl e \<Rightarrow> ([st_error (PlottingFailed e)], Finished)
                    | Inr _ \<Rightarrow> ([st_pyplot (SurfacePlot X Y Z)], Finished)))))"

text \<open>Lines 169 to 181, the limit along the rays \<open>x = r cos theta\<close>, \<open>y = r sin theta\<close>.\<close>

definition radial_2d :: "('e, 's) libraries \<Rightarrow> 'e \<Rightarrow> ('e, 's) st_call list" where
  "radial_2d L expr =
     (let r = sp_Symbol L ''r'';
          theta = sp_Symbol L ''theta'';
          x_r = sp_Mul L r (sp_cos L theta);
          y_r = sp_Mul L r (sp_sin L theta)
      in (case do {
                  radial \<leftarrow> attempt (sp_subs_dict L expr [(''x'', x_r), (''y'', y_r)]);
                  attempt (sp_limit L radial ''r'' (sp_oo L))
                } of
            None \<Rightarrow> [st_warning CouldNotDetermineRadial]
          | Some lim_inf \<Rightarrow>
              st_write (RadialLimit lim_inf) #
              (if lim_inf = sp_oo L then [st_warning GrowsToInfinity]
               else if lim_inf = sp_neg L (sp_oo L) then [st_warning DecreasesToMinusInfinity]
               else [])))"

text \<open>
  Lines 197 to 209, the body of the inner \<^verbatim>\<open>try\<close>: the Hessian at the point, its
  determinant, the value of \<open>f\<close>, and the kind the comparisons select.
\<close>

definition kind_at ::
  "('e, 's) libraries \<Rightarrow> 'e \<Rightarrow> 'e \<Rightarrow> 'e \<Rightarrow> 'e \<Rightarrow> (symbol \<times> 'e) list \<Rightarrow> ('e \<times> string) option" where
  "kind_at L expr f_xx f_yy f_xy pt =
     do {
       h11 \<leftarrow> attempt (sp_subs_dict L f_xx pt);
       h12 \<leftarrow> attempt (sp_subs_dict L f_xy pt);
       h21 \<leftarrow> attempt (sp_subs_dict L f_xy pt);
       h22 \<leftarrow> attempt (sp_subs_dict L f_yy pt);
       det \<leftarrow> attempt (sp_det2 L h11 h12 h21 h22);
       at_pt \<leftarrow> attempt (sp_subs_dict L expr pt);
       val \<leftarrow> attempt (sp_evalf L at_pt);
       above \<leftarrow> attempt (sp_gt0 L det);
       if above then do {
         f_xx_pt \<leftarrow> attempt (sp_subs_dict L f_xx pt);
         up \<leftarrow> attempt (sp_gt0 L f_xx_pt);
         Some (val, if up then ''Local Min'' else ''Local Max'')
       } else do {
         below \<leftarrow> attempt (sp_lt0 L det);
         Some (val, if below then ''Saddle Point'' else ''Inconclusive'')
       }
     }"

text \<open>
  Lines 196 to 212, one critical point: line 210 formats the value and writes the
  line; any exception of the body or of the format gives the warning of line 212.
\<close>

definition classify_point ::
  "('e, 's) libraries \<Rightarrow> 'e \<Rightarrow> 'e \<Rightarrow> 'e \<Rightarrow> 'e \<Rightarrow> (symbol \<times> 'e) list \<Rightarrow> ('e, 's) st_call" where
  "classify_point L expr f_xx f_yy f_xy pt =
     (case do {
             vk \<leftarrow> kind_at L expr f_xx f_yy f_xy pt;
             shown \<leftarrow> attempt (sp_format4f L (fst vk));
             Some (st_write (ClassifiedAt pt shown (snd vk)))
           } of
        None \<Rightarrow> st_warning (CouldNotClassify pt)
      | Some line \<Rightarrow> line)"

text \<open>
  Lines 185 to 214. The outer \<^verbatim>\<open>try\<close> covers the gradient, \<^verbatim>\<open>sp.solve\<close> and the
  three second derivatives; the loop over \<^verbatim>\<open>crit_pts\<close> has its own \<^verbatim>\<open>try\<close> per point.
\<close>

definition critical_points_2d :: "('e, 's) libraries \<Rightarrow> 'e \<Rightarrow> ('e, 's) st_call list" where
  "critical_points_2d L expr =
     (case do {
             g_x \<leftarrow> attempt (sp_diff L expr [''x'']);
             g_y \<leftarrow> attempt (sp_diff L expr [''y'']);
             crit_pts \<leftarrow> attempt (sp_solve_dict L [g_x, g_y] [''x'', ''y'']);
             if crit_pts = [] then Some [st_info NoCriticalPoints]
             else do {
               f_xx \<leftarrow> attempt (sp_diff L expr [''x'', ''x'']);
               f_yy \<leftarrow> attempt (sp_diff L expr [''y'', ''y'']);
               f_xy \<leftarrow> attempt (sp_diff L expr [''x'', ''y'']);
               Some (map (classify_point L expr f_xx f_yy f_xy) crit_pts)
             }
           } of
        None \<Rightarrow> [st_warning CouldNotFindCriticalPoints]
      | Some out \<Rightarrow> out)"

definition analyze_2d :: "('e, 's) libraries \<Rightarrow> 'e \<Rightarrow> ('e, 's) page" where
  "analyze_2d L expr =
     in_sequence
       [say [st_header ''2D Function Analysis''],
        say [st_subheader ''Continuity''],
        say (continuity_2d L expr),
        say [st_subheader ''Differentiability & Partial Derivatives''],
        say (differentiability_2d L expr),
        say [st_subheader ''3D Plot''],
        plot_2d L expr,
        say [st_subheader ''Behavior at Infinity''],
        say (radial_2d L expr),
        say [st_subheader ''Critical Point Classification''],
        say (critical_points_2d L expr)]"

subsection \<open>The script (lines 10 to 30, 118 and 216)\<close>

text \<open>Lines 20 to 25: only \<open>x\<close> and \<open>y\<close> are looked for among the free symbols.\<close>

definition vars_used :: "('e, 's) libraries \<Rightarrow> 'e \<Rightarrow> symbol list" where
  "vars_used L expr =
     (let free_vars = sp_free_symbols L expr
      in (if ''x'' \<in> set free_vars then [''x''] else []) @
         (if ''y'' \<in> set free_vars then [''y''] else []))"

text \<open>
  The whole script on the text the user entered. \<^verbatim>\<open>except Exception\<close> around
  \<^verbatim>\<open>sp.sympify\<close> prints the error and calls \<^verbatim>\<open>st.stop()\<close>.
\<close>

definition function_analyzer :: "('e, 's) libraries \<Rightarrow> string \<Rightarrow> ('e, 's) page" where
  "function_analyzer L equation =
     and_then (say [st_title])
       (case sp_sympify L equation of
          Inl e \<Rightarrow> ([st_error (InvalidExpression e)], Stopped)
        | Inr expr \<Rightarrow>
            (if length (vars_used L expr) = 1 \<and> ''x'' \<in> set (vars_used L expr)
             then analyze_1d L expr
             else if length (vars_used L expr) = 2 then analyze_2d L expr
             else say [st_warning EnterValidFunction]))"

section \<open>An excerpt of SymPy and NumPy\<close>

text \<open>
  The theorems below are about every library \<open>L\<close>. To run the script on the inputs
  the specification names, \<open>excerpt\<close> tabulates what SymPy answers on them, with
  expressions and sets written as SymPy prints them. Outside the table a call raises
  \<open>''not tabulated''\<close>; nothing is concluded from such an answer. The excerpt draws
  every figure; what is proved below about the surface plot is proved for every answer
  of the drawing call.
\<close>

definition excerpt_sympify :: "string \<Rightarrow> exn + string" where
  "excerpt_sympify s =
     (if s \<in> {''2'', ''y'', ''x**2'', ''x**4'', ''1/x'', ''x + z'', ''x**2 - y**2'',
               ''y/(x - 10)'', ''1/(x - 10)'', ''x**4 + 2*x**2'', ''x**5/5 - x + y**2''}
      then Inr s
      else if s = ''x +* 2'' then Inl ''SympifyError''
      else Inl ''not tabulated'')"

definition excerpt_free_symbols :: "string \<Rightarrow> symbol list" where
  "excerpt_free_symbols e =
     (if e \<in> {''x**2'', ''x**4'', ''1/x'', ''1/(x - 10)'', ''x**4 + 2*x**2''} then [''x'']
      else if e = ''y'' then [''y'']
      else if e = ''x + z'' then [''x'', ''z'']
      else if e \<in> {''x**2 - y**2'', ''y/(x - 10)'', ''x**5/5 - x + y**2''} then [''x'', ''y'']
      else [])"

definition excerpt_continuous_domain :: "string \<Rightarrow> symbol \<Rightarrow> exn + string" where
  "excerpt_continuous_domain e v =
     (if e \<in> {''x**2'', ''2*x'', ''x**4'', ''4*x**3'', ''x + z'', ''1'', ''x**2 - y**2'', ''-2*y'',
               ''x**4 + 2*x**2'', ''4*x**3 + 4*x''}
      then Inr ''Reals''
      else if e \<in> {''1/x'', ''-1/x**2''} \<and> v = ''x''
      then Inr ''Union(Interval.open(-oo, 0), Interval.open(0, oo))''
      else Inl ''not tabulated'')"

definition excerpt_set_minus :: "string \<Rightarrow> string \<Rightarrow> string" where
  "excerpt_set_minus a b =
     (if a = ''Interval(-oo, oo)'' \<and> b = ''Reals'' then ''EmptySet''
      else if a = ''Interval(-oo, oo)'' \<and> b = ''Union(Interval.open(-oo, 0), Interval.open(0, oo))''
      then ''{0}''
      else ''Complement('' @ a @ '', '' @ b @ '')'')"

definition excerpt_union :: "string \<Rightarrow> string \<Rightarrow> string" where
  "excerpt_union a b =
     (if a = ''EmptySet'' then b
      else if b = ''EmptySet'' then a
      else ''Union('' @ a @ '', '' @ b @ '')'')"

definition excerpt_set_eq :: "string \<Rightarrow> string \<Rightarrow> bool" where
  "excerpt_set_eq a b =
     (a = b \<or> (a = ''Reals'' \<and> b = ''Interval(-oo, oo)'')
            \<or> (a = ''Interval(-oo, oo)'' \<and> b = ''Reals''))"

definition excerpt_diff :: "string \<Rightarrow> symbol list \<Rightarrow> exn + string" where
  "excerpt_diff e vs =
     (if e = ''x**2'' \<and> vs = [''x''] then Inr ''2*x''
      else if e = ''2*x'' \<and> vs = [''x''] then Inr ''2''
      else if e = ''x**4'' \<and> vs = [''x''] then Inr ''4*x**3''
      else if e = ''4*x**3'' \<and> vs = [''x''] then Inr ''12*x**2''
      else if e = ''1/x'' \<and> vs = [''x''] then Inr ''-1/x**2''
      else if e = ''x + z'' \<and> vs = [''x''] then Inr ''1''
      else if e = ''x**2 - y**2'' \<and> vs = [''x''] then Inr ''2*x''
      else if e = ''x**2 - y**2'' \<and> vs = [''y''] then Inr ''-2*y''
      else if e = ''x**2 - y**2'' \<and> vs = [''x'', ''x''] then Inr ''2''
      else if e = ''x**2 - y**2'' \<and> vs = [''y'', ''y''] then Inr ''-2''
      else if e = ''x**2 - y**2'' \<and> vs = [''x'', ''y''] then Inr ''0''
      else if e = ''x**4 + 2*x**2'' \<and> vs = [''x''] then Inr ''4*x**3 + 4*x''
      else if e = ''4*x**3 + 4*x'' \<and> vs = [''x''] then Inr ''12*x**2 + 4''
      else if e = ''x**5/5 - x + y**2'' \<and> vs = [''x''] then Inr ''x**4 - 1''
      else if e = ''x**5/5 - x + y**2'' \<and> vs = [''y''] then Inr ''2*y''
      else if e = ''x**5/5 - x + y**2'' \<and> vs = [''x'', ''x''] then Inr ''4*x**3''
      else if e = ''x**5/5 - x + y**2'' \<and> vs = [''y'', ''y''] then Inr ''2''
      else if e = ''x**5/5 - x + y**2'' \<and> vs = [''x'', ''y''] then Inr ''0''
      else Inl ''not tabulated'')"

text \<open>
  NumPy's division of two finite floats: dividing by zero gives an infinity of the
  sign of the numerator, or NaN for \<open>0/0\<close>, with a warning and no exception.
\<close>

definition np_divide :: "rat \<Rightarrow> rat \<Rightarrow> float64" where
  "np_divide p q =
     (if q = 0 then (if 0 < p then PosInf else if p < 0 then NegInf else NaN)
      else Finite (p / q))"

text \<open>
  The functions \<^verbatim>\<open>sp.lambdify\<close> generates: \<^verbatim>\<open>return x + z\<close> raises NameError at
  each call, since \<open>z\<close> is not an argument; the two quotients are NumPy divisions;
  the polynomial is evaluated as it stands.
\<close>

fun f_np_x_plus_z :: "float64 list \<Rightarrow> exn + float64" where
  "f_np_x_plus_z _ = Inl ''NameError''"

fun f_np_reciprocal :: "float64 list \<Rightarrow> exn + float64" where
  "f_np_reciprocal [Finite a] = Inr (np_divide 1 (a - 10))"
| "f_np_reciprocal _ = Inl ''not tabulated''"

fun f_np_quotient :: "float64 list \<Rightarrow> exn + float64" where
  "f_np_quotient [Finite a, Finite b] = Inr (np_divide b (a - 10))"
| "f_np_quotient _ = Inl ''not tabulated''"

fun f_np_quartic :: "float64 list \<Rightarrow> exn + float64" where
  "f_np_quartic [Finite a] = Inr (Finite (a ^ 4 + 2 * a ^ 2))"
| "f_np_quartic _ = Inl ''not tabulated''"

definition excerpt_lambdify ::
  "symbol list \<Rightarrow> string \<Rightarrow> exn + (float64 list \<Rightarrow> exn + float64)" where
  "excerpt_lambdify vs e =
     (if vs = [''x''] \<and> e = ''x + z'' then Inr f_np_x_plus_z
      else if vs = [''x''] \<and> e = ''1/(x - 10)'' then Inr f_np_reciprocal
      else if vs = [''x'', ''y''] \<and> e = ''y/(x - 10)'' then Inr f_np_quotient
      else if vs = [''x''] \<and> e = ''x**4 + 2*x**2'' then Inr f_np_quartic
      else Inl ''not tabulated'')"

definition excerpt_limit :: "string \<Rightarrow> symbol \<Rightarrow> string \<Rightarrow> exn + string" where
  "excerpt_limit e v a =
     (if e = ''x**4 + 2*x**2'' \<and> v = ''x'' \<and> a \<in> {''oo'', ''-oo''} then Inr ''oo''
      else Inl ''not tabulated'')"

definition excerpt_solve :: "string \<Rightarrow> symbol \<Rightarrow> exn + string list" where
  "excerpt_solve e v =
     (if e \<in> {''2*x'', ''4*x**3''} \<and> v = ''x'' then Inr [''0'']
      else if e = ''4*x**3 + 4*x'' \<and> v = ''x'' then Inr [''0'', ''-I'', ''I'']
      else Inl ''not tabulated'')"

definition excerpt_solve_dict ::
  "string list \<Rightarrow> symbol list \<Rightarrow> exn + (symbol \<times> string) list list" where
  "excerpt_solve_dict es vs =
     (if es = [''2*x'', ''-2*y''] \<and> vs = [''x'', ''y''] then Inr [[(''x'', ''0''), (''y'', ''0'')]]
      else if es = [''x**4 - 1'', ''2*y''] \<and> vs = [''x'', ''y'']
      then Inr [[(''x'', ''-1''), (''y'', ''0'')], [(''x'', ''1''), (''y'', ''0'')],
                [(''x'', ''-I''), (''y'', ''0'')], [(''x'', ''I''), (''y'', ''0'')]]
      else Inl ''not tabulated'')"

definition excerpt_subs :: "string \<Rightarrow> symbol \<Rightarrow> string \<Rightarrow> exn + string" where
  "excerpt_subs e v a =
     (if v = ''x'' \<and> a = ''0'' \<and> e \<in> {''x**2'', ''x**4'', ''12*x**2''} then Inr ''0''
      else if v = ''x'' \<and> a = ''0'' \<and> e = ''2'' then Inr ''2''
      else if v = ''x'' \<and> a = ''0'' \<and> e = ''12*x**2 + 4'' then Inr ''4''
      else if v = ''x'' \<and> a \<in> {''-I'', ''I''} \<and> e = ''12*x**2 + 4'' then Inr ''-8''
      else if v = ''x'' \<and> a = ''0'' \<and> e = ''x**4 + 2*x**2'' then Inr ''0''
      else if v = ''x'' \<and> a \<in> {''-I'', ''I''} \<and> e = ''x**4 + 2*x**2'' then Inr ''-1''
      else Inl ''not tabulated'')"

definition excerpt_subs_dict :: "string \<Rightarrow> (symbol \<times> string) list \<Rightarrow> exn + string" where
  "excerpt_subs_dict e pt =
     (if pt = [(''x'', ''0''), (''y'', ''0'')] \<and> e = ''x**2 - y**2'' then Inr ''0''
      else if pt = [(''x'', ''0''), (''y'', ''0'')] \<and> e \<in> {''2'', ''-2'', ''0''} then Inr e
      else if pt \<in> {[(''x'', ''-1''), (''y'', ''0'')], [(''x'', ''1''), (''y'', ''0'')],
                      [(''x'', ''-I''), (''y'', ''0'')], [(''x'', ''I''), (''y'', ''0'')]} \<and>
              e \<in> {''2'', ''0''}
      then Inr e
      else if pt = [(''x'', ''-1''), (''y'', ''0'')] \<and> e = ''4*x**3'' then Inr ''-4''
      else if pt = [(''x'', ''1''), (''y'', ''0'')] \<and> e = ''4*x**3'' then Inr ''4''
      else if pt = [(''x'', ''-I''), (''y'', ''0'')] \<and> e = ''4*x**3'' then Inr ''4*I''
      else if pt = [(''x'', ''I''), (''y'', ''0'')] \<and> e = ''4*x**3'' then Inr ''-4*I''
      else if pt = [(''x'', ''-1''), (''y'', ''0'')] \<and> e = ''x**5/5 - x + y**2'' then Inr ''4/5''
      else if pt = [(''x'', ''1''), (''y'', ''0'')] \<and> e = ''x**5/5 - x + y**2'' then Inr ''-4/5''
      else if pt = [(''x'', ''-I''), (''y'', ''0'')] \<and> e = ''x**5/5 - x + y**2'' then Inr ''4*I/5''
      else if pt = [(''x'', ''I''), (''y'', ''0'')] \<and> e = ''x**5/5 - x + y**2'' then Inr ''-4*I/5''
      else Inl ''not tabulated'')"

text \<open>
  The real numbers of the table (each an integer in value) and the comparisons SymPy
  decides on them; comparing anything else, such as \<open>8*I\<close>, raises TypeError.
\<close>

definition excerpt_number :: "string \<Rightarrow> int option" where
  "excerpt_number e =
     (if e = ''0'' then Some 0
      else if e = ''2'' then Some 2
      else if e = ''-2'' then Some (- 2)
      else if e = ''-4'' then Some (- 4)
      else if e = ''4'' then Some 4
      else if e = ''8'' then Some 8
      else if e = ''-8'' then Some (- 8)
      else if e = ''-1.00000000000000'' then Some (- 1)
      else None)"

definition excerpt_compare :: "(int \<Rightarrow> int \<Rightarrow> bool) \<Rightarrow> string \<Rightarrow> string \<Rightarrow> exn + bool" where
  "excerpt_compare rel a b =
     (case (excerpt_number a, excerpt_number b) of
        (Some m, Some n) \<Rightarrow> Inr (rel m n)
      | _ \<Rightarrow> Inl ''TypeError'')"

definition excerpt_evalf :: "string \<Rightarrow> exn + string" where
  "excerpt_evalf e =
     (if e = ''0'' then Inr ''0''
      else if e = ''-1'' then Inr ''-1.00000000000000''
      else if e = ''4/5'' then Inr ''0.800000000000000''
      else if e = ''-4/5'' then Inr ''-0.800000000000000''
      else if e = ''4*I/5'' then Inr ''0.8*I''
      else if e = ''-4*I/5'' then Inr ''-0.8*I''
      else Inl ''not tabulated'')"

definition excerpt_det2 :: "string \<Rightarrow> string \<Rightarrow> string \<Rightarrow> string \<Rightarrow> exn + string" where
  "excerpt_det2 a b c d =
     (if a = ''2'' \<and> b = ''0'' \<and> c = ''0'' \<and> d = ''-2'' then Inr ''-4''
      else if a = ''-4'' \<and> b = ''0'' \<and> c = ''0'' \<and> d = ''2'' then Inr ''-8''
      else if a = ''4'' \<and> b = ''0'' \<and> c = ''0'' \<and> d = ''2'' then Inr ''8''
      else if a = ''4*I'' \<and> b = ''0'' \<and> c = ''0'' \<and> d = ''2'' then Inr ''8*I''
      else if a = ''-4*I'' \<and> b = ''0'' \<and> c = ''0'' \<and> d = ''2'' then Inr ''-8*I''
      else Inl ''not tabulated'')"

definition excerpt_format4f :: "string \<Rightarrow> exn + string" where
  "excerpt_format4f e =
     (if e = ''0'' then Inr ''0.0000''
      else if e = ''0.800000000000000'' then Inr ''0.8000''
      else if e = ''-0.800000000000000'' then Inr ''-0.8000''
      else Inl ''not tabulated'')"

definition excerpt :: "(string, string) libraries" where
  "excerpt =
     \<lparr> sp_sympify = excerpt_sympify,
       sp_free_symbols = excerpt_free_symbols,
       sp_Symbol = (\<lambda>name. name),
       sp_Mul = (\<lambda>a b. a @ ''*'' @ b),
       sp_cos = (\<lambda>a. ''cos('' @ a @ '')''),
       sp_sin = (\<lambda>a. ''sin('' @ a @ '')''),
       sp_oo = ''oo'',
       sp_neg = (\<lambda>a. ''-'' @ a),
       sp_continuous_domain = excerpt_continuous_domain,
       sp_Interval_oo = ''Interval(-oo, oo)'',
       sp_set_minus = excerpt_set_minus,
       sp_union = excerpt_union,
       sp_is_EmptySet = (\<lambda>s. s = ''EmptySet''),
       sp_set_eq = excerpt_set_eq,
       sp_diff = excerpt_diff,
       sp_lambdify = excerpt_lambdify,
       sp_limit = excerpt_limit,
       sp_solve = excerpt_solve,
       sp_solve_dict = excerpt_solve_dict,
       sp_subs = excerpt_subs,
       sp_subs_dict = excerpt_subs_dict,
       sp_evalf = excerpt_evalf,
       sp_gt0 = (\<lambda>e. excerpt_compare (\<lambda>m n. n < m) e ''0''),
       sp_lt0 = (\<lambda>e. excerpt_compare (\<lambda>m n. m < n) e ''0''),
       sp_lt = excerpt_compare (\<lambda>m n. m < n),
       sp_gt = excerpt_compare (\<lambda>m n. n < m),
       sp_det2 = excerpt_det2,
       sp_format4f = excerpt_format4f,
       plt_plot = (\<lambda>xs ys label. Inr ()),
       plt_plot_surface = (\<lambda>X Y Z. Inr ()) \<rparr>"

subsection \<open>Reading a page\<close>

text \<open>
  A run has rejected its input when the page holds the title and one more call, the
  error of line 17 or the warning of line 217: no heading of an analysis was printed.
\<close>

definition rejected :: "('e, 's) page \<Rightarrow> bool" where
  "rejected p =
     (case fst p of
        [t, c] \<Rightarrow>
          (case c of
             st_error m \<Rightarrow> True
           | st_warning m \<Rightarrow> m = EnterValidFunction
           | _ \<Rightarrow> False)
      | _ \<Rightarrow> False)"

text \<open>
  How an input was handled: the first two calls of the page, the title and then the
  error, the warning or the heading of the branch that ran.
\<close>

definition handling :: "('e, 's) page \<Rightarrow> ('e, 's) st_call list" where
  "handling p = take 2 (fst p)"

text \<open>
  What one critical point adds to \<^verbatim>\<open>min_pts\<close> and \<^verbatim>\<open>max_pts\<close> (nothing when the
  \<^verbatim>\<open>try\<close> is left by an exception), and the critical points whose second derivative
  is evaluated and compares neither above nor below zero.
\<close>

definition found ::
  "('e, 's) libraries \<Rightarrow> 'e \<Rightarrow> 'e \<Rightarrow> 'e \<Rightarrow> ('e \<times> 'e) list \<times> ('e \<times> 'e) list" where
  "found L f_double expr pt =
     (case try_point L f_double expr pt ([], []) of None \<Rightarrow> ([], []) | Some d \<Rightarrow> d)"

definition degenerate :: "('e, 's) libraries \<Rightarrow> 'e \<Rightarrow> 'e \<Rightarrow> bool" where
  "degenerate L f_double pt =
     (case sp_subs L f_double ''x'' pt of
        Inl _ \<Rightarrow> False
      | Inr second \<Rightarrow> sp_gt0 L second = Inr False \<and> sp_lt0 L second = Inr False)"

section \<open>Parsing and the choice of the branch\<close>

lemma excerpt_fields:
  "sp_sympify excerpt = excerpt_sympify"
  "sp_free_symbols excerpt = excerpt_free_symbols"
  "sp_continuous_domain excerpt = excerpt_continuous_domain"
  "sp_Interval_oo excerpt = ''Interval(-oo, oo)''"
  "sp_set_minus excerpt = excerpt_set_minus"
  "sp_union excerpt = excerpt_union"
  "sp_is_EmptySet excerpt = (\<lambda>s. s = ''EmptySet'')"
  "sp_set_eq excerpt = excerpt_set_eq"
  "sp_diff excerpt = excerpt_diff"
  "sp_lambdify excerpt = excerpt_lambdify"
  "sp_limit excerpt = excerpt_limit"
  "sp_oo excerpt = ''oo''"
  "sp_neg excerpt = (\<lambda>a. ''-'' @ a)"
  "sp_solve excerpt = excerpt_solve"
  "sp_solve_dict excerpt = excerpt_solve_dict"
  "sp_subs excerpt = excerpt_subs"
  "sp_subs_dict excerpt = excerpt_subs_dict"
  "sp_evalf excerpt = excerpt_evalf"
  "sp_gt0 excerpt = (\<lambda>e. excerpt_compare (\<lambda>m n. n < m) e ''0'')"
  "sp_lt0 excerpt = (\<lambda>e. excerpt_compare (\<lambda>m n. m < n) e ''0'')"
  "sp_lt excerpt = excerpt_compare (\<lambda>m n. m < n)"
  "sp_gt excerpt = excerpt_compare (\<lambda>m n. n < m)"
  "sp_det2 excerpt = excerpt_det2"
  "sp_format4f excerpt = excerpt_format4f"
  "plt_plot excerpt = (\<lambda>xs ys label. Inr ())"
  by (simp_all add: excerpt_def)


lemma and_then_say: "and_then (say out) p = (out @ fst p, snd p)"
  by (cases p) (simp add: say_def)

text \<open>
  C8. When \<^verbatim>\<open>sp.sympify\<close> raises on the text entered, the script shows the error
  with the exception's own message and stops there: the page holds the title and the
  error, no analysis step has run, and the run ends by \<^verbatim>\<open>st.stop()\<close>, not by an
  exception. The malformed text \<^verbatim>\<open>x +* 2\<close> is the witness.
\<close>

theorem parse_error_halts:
  "sp_sympify L equation = Inl e \<Longrightarrow>
   function_analyzer L equation = ([st_title, st_error (InvalidExpression e)], Stopped)"
  by (simp add: function_analyzer_def and_then_say)

theorem parse_error_halts_witness:
  "function_analyzer excerpt ''x +* 2'' =
     ([st_title, st_error (InvalidExpression ''SympifyError'')], Stopped)"
  using parse_error_halts [of excerpt "''x +* 2''" "''SympifyError''"]
  by (simp add: excerpt_def excerpt_sympify_def)

text \<open>
  C7. Once the text has parsed, the branch depends only on which of \<open>x\<close> and \<open>y\<close> are
  free in the expression: neither gives the warning and no analysis; \<open>x\<close> alone gives
  the 1D branch; both give the 2D branch; \<open>y\<close> alone gives the warning and no
  analysis.
\<close>

theorem branch_selection:
  assumes "sp_sympify L equation = Inr expr"
  shows
    "(set (sp_free_symbols L expr) \<inter> {''x'', ''y''} = {} \<longrightarrow>
        function_analyzer L equation = ([st_title, st_warning EnterValidFunction], Finished)) \<and>
     (set (sp_free_symbols L expr) \<inter> {''x'', ''y''} = {''x''} \<longrightarrow>
        function_analyzer L equation = and_then (say [st_title]) (analyze_1d L expr)) \<and>
     (set (sp_free_symbols L expr) \<inter> {''x'', ''y''} = {''x'', ''y''} \<longrightarrow>
        function_analyzer L equation = and_then (say [st_title]) (analyze_2d L expr)) \<and>
     (set (sp_free_symbols L expr) \<inter> {''x'', ''y''} = {''y''} \<longrightarrow>
        function_analyzer L equation = ([st_title, st_warning EnterValidFunction], Finished))"
proof -
  have xy: "''x'' \<noteq> ''y''" by simp
  show ?thesis
    using assms xy
    by (cases "''x'' \<in> set (sp_free_symbols L expr)"; cases "''y'' \<in> set (sp_free_symbols L expr)")
       (auto simp: function_analyzer_def vars_used_def and_then_say say_def)
qed

theorem branch_selection_witness:
  "function_analyzer excerpt ''2'' = ([st_title, st_warning EnterValidFunction], Finished) \<and>
   function_analyzer excerpt ''x**2'' = and_then (say [st_title]) (analyze_1d excerpt ''x**2'') \<and>
   function_analyzer excerpt ''x**2 - y**2'' =
     and_then (say [st_title]) (analyze_2d excerpt ''x**2 - y**2'') \<and>
   function_analyzer excerpt ''y'' = ([st_title, st_warning EnterValidFunction], Finished)"
  using branch_selection [of excerpt "''2''" "''2''"]
        branch_selection [of excerpt "''x**2''" "''x**2''"]
        branch_selection [of excerpt "''x**2 - y**2''" "''x**2 - y**2''"]
        branch_selection [of excerpt "''y''" "''y''"]
  by (simp add: excerpt_def excerpt_sympify_def excerpt_free_symbols_def)

subsection \<open>A symbol other than x and y\<close>

lemma fst_analyze_1d: "\<exists>rest. fst (analyze_1d L expr) = st_header ''1D Function Analysis'' # rest"
  by (simp add: analyze_1d_def and_then_say)

lemma fst_analyze_2d: "\<exists>rest. fst (analyze_2d L expr) = st_header ''2D Function Analysis'' # rest"
  by (simp add: analyze_2d_def and_then_say)

lemma not_rejected_header: "fst p = st_title # st_header h # rest \<Longrightarrow> \<not> rejected p"
  by (cases rest) (simp_all add: rejected_def)

lemma np_linspace_Cons:
  "0 < num \<Longrightarrow> \<exists>vs. np_linspace start stop num = Finite start # vs"
  by (cases num) (simp_all add: np_linspace_def upt_conv_Cons del: upt_Suc)

text \<open>
  The run on \<^verbatim>\<open>x + z\<close>. SymPy parses it, \<open>z\<close> is one more symbol, and only \<open>x\<close> is
  found by lines 22 to 25: the 1D branch runs. The generated \<^verbatim>\<open>f_np\<close> has the one
  argument \<open>x\<close>, so the first sample raises NameError, outside every \<^verbatim>\<open>try\<close>.
\<close>

lemma run_x_plus_z:
  "function_analyzer excerpt ''x + z'' =
     ([st_title, st_header ''1D Function Analysis'', st_success ContinuousOverR,
       st_subheader ''Differentiability'', st_success DifferentiableOverR,
       st_subheader ''Derivative'', st_code (DerivativeIs ''1''), st_subheader ''Plot''],
      Uncaught ''NameError'')"
proof -
  obtain vs where vs: "np_linspace (- 10) 10 400 = Finite (- 10) # vs"
    using np_linspace_Cons [of 400 "- 10" 10] by auto
  have plot: "plot_1d excerpt ''x + z'' = ([], Uncaught ''NameError'')"
    by (simp add: plot_1d_def excerpt_fields excerpt_lambdify_def vs)
  show ?thesis
    by (simp add: function_analyzer_def vars_used_def analyze_1d_def and_then_say plot
        continuity_1d_def differentiability_1d_def derivative_display_def
        excerpt_fields excerpt_sympify_def excerpt_free_symbols_def excerpt_continuous_domain_def
        excerpt_set_minus_def excerpt_diff_def say_def)
qed

text \<open>
  C2, as stated, fails: \<^verbatim>\<open>x + z\<close> parses, has the free symbol \<open>z\<close> outside
  \<open>{x, y}\<close>, and is not rejected: the 1D analysis is printed.
\<close>

theorem third_symbol_counterexample:
  "sp_sympify excerpt ''x + z'' = Inr ''x + z'' \<and>
   ''z'' \<in> set (sp_free_symbols excerpt ''x + z'') \<and>
   ''z'' \<notin> {''x'', ''y''} \<and>
   \<not> rejected (function_analyzer excerpt ''x + z'') \<and>
   st_header ''1D Function Analysis'' \<in> set (fst (function_analyzer excerpt ''x + z''))"
  by (simp add: run_x_plus_z rejected_def excerpt_fields excerpt_sympify_def
      excerpt_free_symbols_def)

lemma and_then_Finished: "and_then (out, Finished) p = (out @ fst p, snd p)"
  by (cases p) simp

lemma handling_cases:
  assumes "sp_sympify L equation = Inr expr"
  shows "handling (function_analyzer L equation) =
     (if ''x'' \<in> set (sp_free_symbols L expr) \<and> ''y'' \<notin> set (sp_free_symbols L expr)
      then [st_title, st_header ''1D Function Analysis'']
      else if ''x'' \<in> set (sp_free_symbols L expr) \<and> ''y'' \<in> set (sp_free_symbols L expr)
      then [st_title, st_header ''2D Function Analysis'']
      else [st_title, st_warning EnterValidFunction])"
proof -
  obtain r1 r2 where r: "fst (analyze_1d L expr) = st_header ''1D Function Analysis'' # r1"
    "fst (analyze_2d L expr) = st_header ''2D Function Analysis'' # r2"
    using fst_analyze_1d fst_analyze_2d by metis
  show ?thesis
    using assms r
    by (cases "''x'' \<in> set (sp_free_symbols L expr)"; cases "''y'' \<in> set (sp_free_symbols L expr)")
       (auto simp: handling_def function_analyzer_def vars_used_def and_then_Finished say_def
          numeral_2_eq_2)
qed

text \<open>
  C2, amended. For an input that parses and has a free symbol outside \<open>{x, y}\<close>, that
  symbol plays no part in the choice of the branch. With \<open>x\<close> free and \<open>y\<close> not, the
  run is the title followed by the run of the 1D branch on the expression; with both
  free, by the run of the 2D branch; with \<open>x\<close> not free, the page is the title and the
  warning, and no analysis. The input is rejected exactly in the last case. The steps
  of a branch receive the expression with the symbol in it and may fail on it: on
  \<^verbatim>\<open>x + z\<close> the 1D branch ends at the sampling (\<open>run_x_plus_z\<close>). A second run in
  which SymPy parses the text to an expression with the same free symbols, whatever
  else the libraries answer, is handled the same way: the same warning or the same
  branch.
\<close>

theorem third_symbol_policy:
  assumes parse: "sp_sympify L equation = Inr expr"
    and "v \<in> set (sp_free_symbols L expr)" and "v \<notin> {''x'', ''y''}"
  shows
    "(''x'' \<in> set (sp_free_symbols L expr) \<and> ''y'' \<notin> set (sp_free_symbols L expr) \<longrightarrow>
        function_analyzer L equation = and_then (say [st_title]) (analyze_1d L expr) \<and>
        handling (function_analyzer L equation) = [st_title, st_header ''1D Function Analysis'']) \<and>
     (''x'' \<in> set (sp_free_symbols L expr) \<and> ''y'' \<in> set (sp_free_symbols L expr) \<longrightarrow>
        function_analyzer L equation = and_then (say [st_title]) (analyze_2d L expr) \<and>
        handling (function_analyzer L equation) = [st_title, st_header ''2D Function Analysis'']) \<and>
     (''x'' \<notin> set (sp_free_symbols L expr) \<longrightarrow>
        function_analyzer L equation = ([st_title, st_warning EnterValidFunction], Finished)) \<and>
     (rejected (function_analyzer L equation) \<longleftrightarrow> ''x'' \<notin> set (sp_free_symbols L expr)) \<and>
     (\<forall>L' expr'. sp_sympify L' equation = Inr expr' \<and>
          set (sp_free_symbols L' expr') = set (sp_free_symbols L expr) \<longrightarrow>
        handling (function_analyzer L' equation) = handling (function_analyzer L equation))"
proof (intro conjI allI impI)
  assume "''x'' \<in> set (sp_free_symbols L expr) \<and> ''y'' \<notin> set (sp_free_symbols L expr)"
  then show "function_analyzer L equation = and_then (say [st_title]) (analyze_1d L expr)"
    using parse by (simp add: function_analyzer_def vars_used_def)
next
  assume "''x'' \<in> set (sp_free_symbols L expr) \<and> ''y'' \<notin> set (sp_free_symbols L expr)"
  then show "handling (function_analyzer L equation) = [st_title, st_header ''1D Function Analysis'']"
    using handling_cases [OF parse] by simp
next
  assume "''x'' \<in> set (sp_free_symbols L expr) \<and> ''y'' \<in> set (sp_free_symbols L expr)"
  then show "function_analyzer L equation = and_then (say [st_title]) (analyze_2d L expr)"
    using parse by (simp add: function_analyzer_def vars_used_def)
next
  assume "''x'' \<in> set (sp_free_symbols L expr) \<and> ''y'' \<in> set (sp_free_symbols L expr)"
  then show "handling (function_analyzer L equation) = [st_title, st_header ''2D Function Analysis'']"
    using handling_cases [OF parse] by simp
next
  assume "''x'' \<notin> set (sp_free_symbols L expr)"
  then show "function_analyzer L equation = ([st_title, st_warning EnterValidFunction], Finished)"
    using parse by (simp add: function_analyzer_def vars_used_def and_then_say say_def)
next
  show "rejected (function_analyzer L equation) \<longleftrightarrow> ''x'' \<notin> set (sp_free_symbols L expr)"
  proof (cases "''x'' \<in> set (sp_free_symbols L expr)")
    case True
    obtain r1 r2 where r: "fst (analyze_1d L expr) = st_header ''1D Function Analysis'' # r1"
      "fst (analyze_2d L expr) = st_header ''2D Function Analysis'' # r2"
      using fst_analyze_1d fst_analyze_2d by metis
    have "\<not> rejected (function_analyzer L equation)"
      using parse True r
      by (cases "''y'' \<in> set (sp_free_symbols L expr)")
         (auto simp: function_analyzer_def vars_used_def and_then_say intro!: not_rejected_header)
    with True show ?thesis by simp
  next
    case False
    then show ?thesis
      using parse
      by (auto simp: function_analyzer_def vars_used_def and_then_say say_def rejected_def)
  qed
next
  fix L' :: "('a, 'b) libraries" and expr'
  assume "sp_sympify L' equation = Inr expr' \<and>
          set (sp_free_symbols L' expr') = set (sp_free_symbols L expr)"
  then show "handling (function_analyzer L' equation) = handling (function_analyzer L equation)"
    using handling_cases [OF parse] handling_cases [of L' equation expr'] by simp
qed

theorem third_symbol_policy_witness:
  "sp_sympify excerpt ''x + z'' = Inr ''x + z'' \<and>
   ''z'' \<in> set (sp_free_symbols excerpt ''x + z'') \<and>
   function_analyzer excerpt ''x + z'' = and_then (say [st_title]) (analyze_1d excerpt ''x + z'') \<and>
   handling (function_analyzer excerpt ''x + z'') = [st_title, st_header ''1D Function Analysis''] \<and>
   \<not> rejected (function_analyzer excerpt ''x + z'') \<and>
   snd (function_analyzer excerpt ''x + z'') = Uncaught ''NameError'' \<and>
   sp_free_symbols (excerpt\<lparr>sp_free_symbols := \<lambda>e. rev (sp_free_symbols excerpt e)\<rparr>) ''x + z'' =
     [''z'', ''x''] \<and>
   handling (function_analyzer
       (excerpt\<lparr>sp_free_symbols := \<lambda>e. rev (sp_free_symbols excerpt e)\<rparr>) ''x + z'') =
     handling (function_analyzer excerpt ''x + z'')"
proof -
  have p: "sp_sympify excerpt ''x + z'' = Inr ''x + z''"
    and z: "''z'' \<in> set (sp_free_symbols excerpt ''x + z'')" "''z'' \<notin> {''x'', ''y''}"
    and x: "''x'' \<in> set (sp_free_symbols excerpt ''x + z'') \<and>
            ''y'' \<notin> set (sp_free_symbols excerpt ''x + z'')"
    by (simp_all add: excerpt_fields excerpt_sympify_def excerpt_free_symbols_def)
  note t = third_symbol_policy [OF p z]
  have again: "sp_sympify (excerpt\<lparr>sp_free_symbols := \<lambda>e. rev (sp_free_symbols excerpt e)\<rparr>)
        ''x + z'' = Inr ''x + z'' \<and>
      set (sp_free_symbols (excerpt\<lparr>sp_free_symbols := \<lambda>e. rev (sp_free_symbols excerpt e)\<rparr>)
        ''x + z'') = set (sp_free_symbols excerpt ''x + z'')"
    using p by simp
  from t x have "function_analyzer excerpt ''x + z'' =
      and_then (say [st_title]) (analyze_1d excerpt ''x + z'')"
    "handling (function_analyzer excerpt ''x + z'') = [st_title, st_header ''1D Function Analysis'']"
    "\<not> rejected (function_analyzer excerpt ''x + z'')"
    by blast+
  moreover from t again have "handling (function_analyzer
       (excerpt\<lparr>sp_free_symbols := \<lambda>e. rev (sp_free_symbols excerpt e)\<rparr>) ''x + z'') =
     handling (function_analyzer excerpt ''x + z'')"
    by blast
  moreover have "snd (function_analyzer excerpt ''x + z'') = Uncaught ''NameError''"
    by (simp add: run_x_plus_z)
  ultimately show ?thesis
    using p z by (simp add: excerpt_fields excerpt_free_symbols_def)
qed

section \<open>Steps outside every try\<close>

text \<open>
  In the 1D branch the continuity step, the sampling and the three calls that open the
  extrema step are not inside a \<^verbatim>\<open>try\<close>. The 2D branch guards its continuity step
  and its \<^verbatim>\<open>sp.solve\<close>. An exception of the 1D continuity step ends the run after the
  heading:
\<close>

lemma continuity_failure_ends_run:
  "sp_continuous_domain L expr ''x'' = Inl e \<Longrightarrow>
   analyze_1d L expr = ([st_header ''1D Function Analysis''], Uncaught e)"
  by (simp add: analyze_1d_def continuity_1d_def and_then_say)

lemma solve_failure_uncaught:
  "sp_diff L expr [''x''] = Inr f_prime \<Longrightarrow> sp_diff L f_prime [''x''] = Inr f_double \<Longrightarrow>
   sp_solve L f_prime ''x'' = Inl e \<Longrightarrow> extrema_1d L expr = ([], Uncaught e)"
  by (simp add: extrema_1d_def)

text \<open>The same failures in the 2D branch are caught and reported as warnings.\<close>

lemma continuity_2d_guarded:
  "sp_continuous_domain L expr ''x'' = Inl e \<Longrightarrow>
   continuity_2d L expr = [st_warning CouldNotDetermineContinuity]"
  by (simp add: continuity_2d_def)

lemma solve_2d_guarded:
  "sp_diff L expr [''x''] = Inr g_x \<Longrightarrow> sp_diff L expr [''y''] = Inr g_y \<Longrightarrow>
   sp_solve_dict L [g_x, g_y] [''x'', ''y''] = Inl e \<Longrightarrow>
   critical_points_2d L expr = [st_warning CouldNotFindCriticalPoints]"
  by (simp add: critical_points_2d_def)

text \<open>
  C3, on the code: on \<^verbatim>\<open>x + z\<close> the sampling step raises, the run ends there with
  the exception uncaught, and the two steps after it (the limits and the extrema) never
  run; nothing is reported for the step that failed.
\<close>

theorem sampling_failure_aborts_later_steps:
  "snd (function_analyzer excerpt ''x + z'') = Uncaught ''NameError'' \<and>
   last (fst (function_analyzer excerpt ''x + z'')) = st_subheader ''Plot'' \<and>
   st_subheader ''Behavior at Infinity'' \<notin> set (fst (function_analyzer excerpt ''x + z'')) \<and>
   st_subheader ''Global Min / Max'' \<notin> set (fst (function_analyzer excerpt ''x + z''))"
  by (simp add: run_x_plus_z)

section \<open>Sampling\<close>

lemma np_linspace_nth:
  "i < num \<Longrightarrow>
   np_linspace start stop num ! i = Finite (start + of_nat i * ((stop - start) / of_nat (num - 1)))"
  by (simp add: np_linspace_def)

lemma np_linspace_length: "length (np_linspace start stop num) = num"
  by (simp add: np_linspace_def)

lemma np_linspace_Finite: "v \<in> set (np_linspace start stop num) \<Longrightarrow> \<exists>q. v = Finite q"
  by (auto simp: np_linspace_def)

subsection \<open>The line plot replaces what is not finite\<close>

lemma y_vals_length: "y_vals f xs = Inr ys \<Longrightarrow> length ys = length xs"
  by (induction xs arbitrary: ys) (auto split: sum.splits if_splits)

text \<open>
  In the 1D branch a sample where \<^verbatim>\<open>f_np\<close> returns an infinity or NaN is stored as
  NaN, and a finite sample is stored as it is.
\<close>

lemma y_vals_nth:
  "y_vals f xs = Inr ys \<Longrightarrow> i < length xs \<Longrightarrow> f [xs ! i] = Inr t \<Longrightarrow>
   ys ! i = (if np_isfinite t then t else NaN)"
proof (induction xs arbitrary: ys i)
  case Nil
  then show ?case by simp
next
  case (Cons v vs)
  then show ?case
    by (cases i) (auto split: sum.splits if_splits)
qed

lemma y_vals_total:
  "(\<And>v. v \<in> set xs \<Longrightarrow> f [v] = Inr (g v)) \<Longrightarrow>
   y_vals f xs = Inr (map (\<lambda>v. if np_isfinite (g v) then g v else NaN) xs)"
  by (induction xs) auto

text \<open>
  \<^verbatim>\<open>1/(x - 10)\<close>: the last of the 400 points is 10, NumPy's division gives
  \<open>inf\<close> there, and the plotted list holds NaN.
\<close>

lemma line_plot_gap:
  "\<exists>ys. plot_1d excerpt ''1/(x - 10)'' =
      ([st_pyplot (LinePlot (np_linspace (- 10) 10 400) ys ''1/(x - 10)'')], Finished) \<and>
     np_linspace (- 10) 10 400 ! 399 = Finite 10 \<and> ys ! 399 = NaN"
proof -
  define g where "g = (\<lambda>x. case x of Finite a \<Rightarrow> np_divide 1 (a - 10) | _ \<Rightarrow> NaN)"
  define xs where "xs = np_linspace (- 10) 10 400"
  have tot: "f_np_reciprocal [x] = Inr (g x)" if "x \<in> set xs" for x
  proof -
    from that obtain a where "x = Finite a"
      unfolding xs_def using np_linspace_Finite by blast
    then show ?thesis by (simp add: g_def)
  qed
  have last: "xs ! 399 = Finite 10" "length xs = 400"
    by (simp_all add: xs_def np_linspace_nth np_linspace_length)
  have "plot_1d excerpt ''1/(x - 10)'' =
      ([st_pyplot (LinePlot xs (map (\<lambda>v. if np_isfinite (g v) then g v else NaN) xs)
          ''1/(x - 10)'')], Finished)"
    by (simp add: plot_1d_def excerpt_fields excerpt_lambdify_def y_vals_total [where g = g] tot
        flip: xs_def)
  moreover have "map (\<lambda>v. if np_isfinite (g v) then g v else NaN) xs ! 399 = NaN"
    by (simp add: last g_def np_divide_def)
  ultimately show ?thesis using last unfolding xs_def by blast
qed

subsection \<open>The surface plot does not\<close>

lemma all_or_raise_map:
  "(\<And>x. x \<in> set xs \<Longrightarrow> h x = Inr (g x)) \<Longrightarrow> all_or_raise (map h xs) = Inr (map g xs)"
  by (induction xs) auto

lemma all_or_raise_nth:
  "all_or_raise rs = Inr vs \<Longrightarrow>
   length vs = length rs \<and> (\<forall>i<length rs. rs ! i = Inr (vs ! i))"
proof (induction rs arbitrary: vs)
  case Nil
  then show ?case by simp
next
  case (Cons r rs)
  then show ?case
    by (auto split: sum.splits simp: nth_Cons split: nat.splits)
qed

lemma Z_vals_meshgrid:
  "Z_vals f (fst (np_meshgrid xs ys)) (snd (np_meshgrid xs ys)) =
     all_or_raise (map (\<lambda>y. all_or_raise (map (\<lambda>x. f [x, y]) xs)) ys)"
proof -
  have row: "zip xs (map (\<lambda>_. y) xs) = map (\<lambda>x. (x, y)) xs" for y :: float64
    by (induction xs) auto
  have rows: "zip (map (\<lambda>_. xs) ys) (map (\<lambda>y. map (\<lambda>_. y) xs) ys) =
      map (\<lambda>y. (xs, map (\<lambda>_. y) xs)) ys"
    by (induction ys) auto
  show ?thesis
    by (simp add: Z_vals_def np_meshgrid_def rows row comp_def)
qed

text \<open>
  In the 2D branch every entry of \<open>Z\<close> is what \<^verbatim>\<open>f_np\<close> returned at that grid point:
  line 156 has no \<^verbatim>\<open>np.isfinite\<close> test, so an infinity stays an infinity.
\<close>

lemma Z_vals_unchanged:
  assumes "Z_vals f X Y = Inr Z" and "i < length X" and "i < length Y"
    and "j < length (X ! i)" and "j < length (Y ! i)"
  shows "f [X ! i ! j, Y ! i ! j] = Inr (Z ! i ! j)"
proof -
  let ?row = "\<lambda>row. all_or_raise (map (\<lambda>p. f [fst p, snd p]) (zip (fst row) (snd row)))"
  from assms(1) have "all_or_raise (map ?row (zip X Y)) = Inr Z"
    by (simp add: Z_vals_def)
  from all_or_raise_nth [OF this] assms(2,3)
  have "?row (X ! i, Y ! i) = Inr (Z ! i)" by simp
  from all_or_raise_nth [OF this] assms(4,5)
  show ?thesis by simp
qed

text \<open>
  C1, on the code: for \<^verbatim>\<open>y/(x - 10)\<close> the last grid point is \<open>(10, 10)\<close>, NumPy's
  division gives \<open>inf\<close> there, and the array \<open>Z\<close> handed to the drawing call holds
  that \<open>inf\<close>, not NaN. Whatever the drawing call answers, the page shows either the
  surface over this \<open>Z\<close> or the error of line 165. The 1D branch turns the same value
  into NaN (\<open>line_plot_gap\<close>).
\<close>

theorem surface_keeps_infinity:
  "\<exists>X Y Z. X ! 99 ! 99 = Finite 10 \<and> Y ! 99 ! 99 = Finite 10 \<and> Z ! 99 ! 99 = PosInf \<and>
     (\<forall>draw. plot_2d (excerpt\<lparr>plt_plot_surface := draw\<rparr>) ''y/(x - 10)'' =
        (case draw X Y Z of
           Inl e \<Rightarrow> ([st_error (PlottingFailed e)], Finished)
         | Inr u \<Rightarrow> ([st_pyplot (SurfacePlot X Y Z)], Finished)))"
proof -
  define g where
    "g = (\<lambda>x y. case (x, y) of (Finite a, Finite b) \<Rightarrow> np_divide b (a - 10) | _ \<Rightarrow> NaN)"
  define rs where "rs = np_linspace (- 10) 10 100"
  have tot: "f_np_quotient [x, y] = Inr (g x y)" if "x \<in> set rs" "y \<in> set rs" for x y
  proof -
    from that obtain a b where "x = Finite a" "y = Finite b"
      unfolding rs_def using np_linspace_Finite by blast
    then show ?thesis by (simp add: g_def)
  qed
  have Z: "Z_vals f_np_quotient (fst (np_meshgrid rs rs)) (snd (np_meshgrid rs rs)) =
      Inr (map (\<lambda>y. map (\<lambda>x. g x y) rs) rs)"
    unfolding Z_vals_meshgrid
    by (intro all_or_raise_map) (simp add: all_or_raise_map tot)
  have last: "rs ! 99 = Finite 10" "length rs = 100"
    by (simp_all add: rs_def np_linspace_nth np_linspace_length)
  have "plot_2d (excerpt\<lparr>plt_plot_surface := draw\<rparr>) ''y/(x - 10)'' =
      (case draw (fst (np_meshgrid rs rs)) (snd (np_meshgrid rs rs))
              (map (\<lambda>y. map (\<lambda>x. g x y) rs) rs) of
         Inl e \<Rightarrow> ([st_error (PlottingFailed e)], Finished)
       | Inr u \<Rightarrow>
           ([st_pyplot (SurfacePlot (fst (np_meshgrid rs rs)) (snd (np_meshgrid rs rs))
              (map (\<lambda>y. map (\<lambda>x. g x y) rs) rs))], Finished))" for draw
    by (simp add: plot_2d_def excerpt_fields excerpt_lambdify_def Z Let_def flip: rs_def)
  moreover have "fst (np_meshgrid rs rs) ! 99 ! 99 = Finite 10"
    "snd (np_meshgrid rs rs) ! 99 ! 99 = Finite 10"
    "map (\<lambda>y. map (\<lambda>x. g x y) rs) rs ! 99 ! 99 = PosInf"
    by (simp_all add: np_meshgrid_def last g_def np_divide_def)
  ultimately show ?thesis by blast
qed

section \<open>Extrema in the 1D branch\<close>

lemma try_point_found:
  "(case try_point L f_double expr pt pts of None \<Rightarrow> pts | Some pts' \<Rightarrow> pts') =
     (fst pts @ fst (found L f_double expr pt), snd pts @ snd (found L f_double expr pt))"
  by (cases pts)
     (auto simp: try_point_def found_def split: Option.bind_splits option.splits if_splits)

lemma min_max_pts_found:
  "min_max_pts L f_double expr cps pts =
     (fst pts @ concat (map (\<lambda>pt. fst (found L f_double expr pt)) cps),
      snd pts @ concat (map (\<lambda>pt. snd (found L f_double expr pt)) cps))"
proof (induction cps arbitrary: pts)
  case Nil
  then show ?case by simp
next
  case (Cons pt cps)
  show ?case
    by (simp only: min_max_pts.simps try_point_found Cons.IH) simp
qed

lemma found_cases:
  "found L f_double expr pt = ([], []) \<or>
   (\<exists>val. found L f_double expr pt = ([(pt, val)], [])) \<or>
   (\<exists>val. found L f_double expr pt = ([], [(pt, val)]))"
  by (auto simp: found_def try_point_def split: Option.bind_splits option.splits if_splits)

lemma found_min:
  "sp_subs L f_double ''x'' pt = Inr second \<Longrightarrow> sp_subs L expr ''x'' pt = Inr at_pt \<Longrightarrow>
   sp_evalf L at_pt = Inr val \<Longrightarrow> sp_gt0 L second = Inr True \<Longrightarrow>
   found L f_double expr pt = ([(pt, val)], [])"
  by (simp add: found_def try_point_def)

lemma found_max:
  "sp_subs L f_double ''x'' pt = Inr second \<Longrightarrow> sp_subs L expr ''x'' pt = Inr at_pt \<Longrightarrow>
   sp_evalf L at_pt = Inr val \<Longrightarrow> sp_gt0 L second = Inr False \<Longrightarrow> sp_lt0 L second = Inr True \<Longrightarrow>
   found L f_double expr pt = ([], [(pt, val)])"
  by (simp add: found_def try_point_def)

lemma found_degenerate: "degenerate L f_double pt \<Longrightarrow> found L f_double expr pt = ([], [])"
  by (auto simp: found_def try_point_def degenerate_def
      split: Option.bind_splits option.splits if_splits sum.splits)

lemma found_raise:
  "sp_subs L f_double ''x'' pt = Inl e \<or>
   (\<exists>second. sp_subs L f_double ''x'' pt = Inr second \<and> sp_gt0 L second = Inl e) \<Longrightarrow>
   found L f_double expr pt = ([], [])"
  by (auto simp: found_def try_point_def split: Option.bind_splits option.splits)

lemma in_min_pts:
  "min_max_pts L f_double expr cps ([], []) = (min_pts, max_pts) \<Longrightarrow>
   c \<in> set min_pts \<longleftrightarrow> (\<exists>pt\<in>set cps. c \<in> set (fst (found L f_double expr pt)))"
  by (auto simp: min_max_pts_found)

lemma in_max_pts:
  "min_max_pts L f_double expr cps ([], []) = (min_pts, max_pts) \<Longrightarrow>
   c \<in> set max_pts \<longleftrightarrow> (\<exists>pt\<in>set cps. c \<in> set (snd (found L f_double expr pt)))"
  by (auto simp: min_max_pts_found)

lemma found_fst: "c \<in> set (fst (found L f_double expr pt)) \<Longrightarrow> fst c = pt \<and> found L f_double expr pt = ([c], [])"
  using found_cases [of L f_double expr pt] by auto

lemma found_snd: "c \<in> set (snd (found L f_double expr pt)) \<Longrightarrow> fst c = pt \<and> found L f_double expr pt = ([], [c])"
  using found_cases [of L f_double expr pt] by auto

lemma min_max_best:
  fixes \<rho> :: "'e \<Rightarrow> real"
  assumes "\<forall>a\<in>snd ` set (best # ts). \<forall>b\<in>snd ` set (best # ts). better a b = Inr (\<rho> a < \<rho> b)"
  shows "\<exists>m\<in>set (best # ts). min_max better best ts = Inr m \<and>
           (\<forall>c\<in>set (best # ts). \<rho> (snd m) \<le> \<rho> (snd c))"
  using assms
proof (induction ts arbitrary: best)
  case Nil
  then show ?case by simp
next
  case (Cons t ts)
  let ?b = "if \<rho> (snd t) < \<rho> (snd best) then t else best"
  have step: "min_max better best (t # ts) = min_max better ?b ts"
    using Cons.prems by simp
  have "\<forall>a\<in>snd ` set (?b # ts). \<forall>b\<in>snd ` set (?b # ts). better a b = Inr (\<rho> a < \<rho> b)"
    using Cons.prems by auto
  from Cons.IH [OF this] obtain m where m: "m \<in> set (?b # ts)"
    "min_max better ?b ts = Inr m" "\<forall>c\<in>set (?b # ts). \<rho> (snd m) \<le> \<rho> (snd c)"
    by blast
  have "\<rho> (snd m) \<le> \<rho> (snd ?b)" using m(3) by simp
  then have "\<rho> (snd m) \<le> \<rho> (snd t)" "\<rho> (snd m) \<le> \<rho> (snd best)"
    by (auto split: if_splits)
  with m show ?case
    unfolding step by (intro bexI [of _ m]) (auto split: if_splits)
qed


lemma best_min_least:
  fixes \<rho> :: "'e \<Rightarrow> real"
  assumes "\<forall>a\<in>snd ` set min_pts. \<forall>b\<in>snd ` set min_pts. sp_lt L a b = Inr (\<rho> a < \<rho> b)"
    and "min_pts \<noteq> []"
  shows "\<exists>m\<in>set min_pts. best_min L min_pts = ([st_success (GlobalMinimum (snd m) (fst m))], Finished) \<and>
           (\<forall>c\<in>set min_pts. \<rho> (snd m) \<le> \<rho> (snd c))"
proof -
  from assms(2) obtain t ts where ts: "min_pts = t # ts" by (cases min_pts) auto
  from min_max_best [of t ts "sp_lt L" \<rho>] assms(1) obtain m where
    "m \<in> set (t # ts)" "min_max (sp_lt L) t ts = Inr m" "\<forall>c\<in>set (t # ts). \<rho> (snd m) \<le> \<rho> (snd c)"
    unfolding ts by blast
  then show ?thesis
    unfolding ts by (intro bexI [of _ m]) (simp_all add: best_min_def)
qed

lemma best_max_greatest:
  fixes \<rho> :: "'e \<Rightarrow> real"
  assumes "\<forall>a\<in>snd ` set max_pts. \<forall>b\<in>snd ` set max_pts. sp_gt L a b = Inr (\<rho> b < \<rho> a)"
    and "max_pts \<noteq> []"
  shows "\<exists>m\<in>set max_pts. best_max L max_pts = ([st_success (GlobalMaximum (snd m) (fst m))], Finished) \<and>
           (\<forall>c\<in>set max_pts. \<rho> (snd c) \<le> \<rho> (snd m))"
proof -
  from assms(2) obtain t ts where ts: "max_pts = t # ts" by (cases max_pts) auto
  have "\<forall>a\<in>snd ` set (t # ts). \<forall>b\<in>snd ` set (t # ts). sp_gt L a b = Inr (- \<rho> a < - \<rho> b)"
    using assms(1) unfolding ts by simp
  from min_max_best [of t ts "sp_gt L" "\<lambda>e. - \<rho> e", OF this] obtain m where
    "m \<in> set (t # ts)" "min_max (sp_gt L) t ts = Inr m" "\<forall>c\<in>set (t # ts). - \<rho> (snd m) \<le> - \<rho> (snd c)"
    by blast
  then show ?thesis
    unfolding ts by (intro bexI [of _ m]) (simp_all add: best_max_def)
qed

text \<open>
  What the loop does with the critical points \<^verbatim>\<open>sp.solve\<close> returns, whether they are
  real or not; \<open>\<rho>\<close> gives the real number a SymPy value stands for. For a critical
  point where \<open>f''\<close> and \<open>f\<close> evaluate and SymPy decides the sign of \<open>f''\<close>: a
  positive \<open>f''\<close> puts the point, with its value, in \<^verbatim>\<open>min_pts\<close> and not in
  \<^verbatim>\<open>max_pts\<close>; a negative one puts it in \<^verbatim>\<open>max_pts\<close> and not in \<^verbatim>\<open>min_pts\<close>;
  zero puts it in neither. A point where evaluating \<open>f''\<close> or comparing it with zero
  raises is in neither list. The step ends without an exception and prints two lines:
  for an empty list the line that there is no global minimum (maximum), otherwise a
  candidate of the list whose value is the smallest (largest) among the candidates,
  provided SymPy's comparisons of the candidates' values agree with the order of the
  reals. For \<^verbatim>\<open>x**2\<close> the lines are the global minimum \<open>f = 0\<close> at \<open>x = 0\<close> and no
  global maximum.
\<close>

lemma extrema_1d_candidates:
  fixes \<rho> :: "'e \<Rightarrow> real"
  assumes "sp_diff L expr [''x''] = Inr f_prime"
    and "sp_diff L f_prime [''x''] = Inr f_double"
    and "sp_solve L f_prime ''x'' = Inr critical_points"
    and pts: "min_max_pts L f_double expr critical_points ([], []) = (min_pts, max_pts)"
    and lt: "\<forall>a\<in>snd ` set min_pts. \<forall>b\<in>snd ` set min_pts. sp_lt L a b = Inr (\<rho> a < \<rho> b)"
    and gt: "\<forall>a\<in>snd ` set max_pts. \<forall>b\<in>snd ` set max_pts. sp_gt L a b = Inr (\<rho> b < \<rho> a)"
  shows
    "(\<forall>pt\<in>set critical_points. \<forall>second at_pt val.
        sp_subs L f_double ''x'' pt = Inr second \<and> sp_subs L expr ''x'' pt = Inr at_pt \<and>
        sp_evalf L at_pt = Inr val \<and>
        sp_gt0 L second = Inr (0 < \<rho> second) \<and> sp_lt0 L second = Inr (\<rho> second < 0) \<longrightarrow>
          (0 < \<rho> second \<longrightarrow> (pt, val) \<in> set min_pts \<and> pt \<notin> fst ` set max_pts) \<and>
          (\<rho> second < 0 \<longrightarrow> (pt, val) \<in> set max_pts \<and> pt \<notin> fst ` set min_pts) \<and>
          (\<rho> second = 0 \<longrightarrow> pt \<notin> fst ` set min_pts \<and> pt \<notin> fst ` set max_pts)) \<and>
     (\<forall>pt\<in>set critical_points. \<forall>e.
        sp_subs L f_double ''x'' pt = Inl e \<or>
        (\<exists>second. sp_subs L f_double ''x'' pt = Inr second \<and> sp_gt0 L second = Inl e) \<longrightarrow>
          pt \<notin> fst ` set min_pts \<and> pt \<notin> fst ` set max_pts) \<and>
     (\<exists>lo hi. extrema_1d L expr = (lo @ hi, Finished) \<and>
        (min_pts = [] \<longrightarrow> lo = [st_info NoGlobalMinimum]) \<and>
        (min_pts \<noteq> [] \<longrightarrow>
           (\<exists>m\<in>set min_pts. lo = [st_success (GlobalMinimum (snd m) (fst m))] \<and>
              (\<forall>c\<in>set min_pts. \<rho> (snd m) \<le> \<rho> (snd c)))) \<and>
        (max_pts = [] \<longrightarrow> hi = [st_info NoGlobalMaximum]) \<and>
        (max_pts \<noteq> [] \<longrightarrow>
           (\<exists>m\<in>set max_pts. hi = [st_success (GlobalMaximum (snd m) (fst m))] \<and>
              (\<forall>c\<in>set max_pts. \<rho> (snd c) \<le> \<rho> (snd m)))))"
proof (intro conjI ballI allI impI)
  fix pt second at_pt val
  assume pt: "pt \<in> set critical_points"
    and ev: "sp_subs L f_double ''x'' pt = Inr second \<and> sp_subs L expr ''x'' pt = Inr at_pt \<and>
        sp_evalf L at_pt = Inr val \<and>
        sp_gt0 L second = Inr (0 < \<rho> second) \<and> sp_lt0 L second = Inr (\<rho> second < 0)"
  {
    assume "0 < \<rho> second"
    with ev have f: "found L f_double expr pt = ([(pt, val)], [])"
      by (intro found_min) auto
    with pt show "(pt, val) \<in> set min_pts"
      by (subst in_min_pts [OF pts]) force
    show "pt \<notin> fst ` set max_pts"
      using f by (auto simp: in_max_pts [OF pts] dest!: found_snd)
  }
  {
    assume "\<rho> second < 0"
    with ev have f: "found L f_double expr pt = ([], [(pt, val)])"
      by (intro found_max) auto
    with pt show "(pt, val) \<in> set max_pts"
      by (subst in_max_pts [OF pts]) force
    show "pt \<notin> fst ` set min_pts"
      using f by (auto simp: in_min_pts [OF pts] dest!: found_fst)
  }
  {
    assume "\<rho> second = 0"
    with ev have "degenerate L f_double pt" by (simp add: degenerate_def)
    then have f: "found L f_double expr pt = ([], [])" by (rule found_degenerate)
    show "pt \<notin> fst ` set min_pts"
      using f by (auto simp: in_min_pts [OF pts] dest!: found_fst)
    show "pt \<notin> fst ` set max_pts"
      using f by (auto simp: in_max_pts [OF pts] dest!: found_snd)
  }
next
  fix pt e
  assume "sp_subs L f_double ''x'' pt = Inl e \<or>
        (\<exists>second. sp_subs L f_double ''x'' pt = Inr second \<and> sp_gt0 L second = Inl e)"
  then have f: "found L f_double expr pt = ([], [])" by (rule found_raise)
  show "pt \<notin> fst ` set min_pts"
    using f by (auto simp: in_min_pts [OF pts] dest!: found_fst)
  show "pt \<notin> fst ` set max_pts"
    using f by (auto simp: in_max_pts [OF pts] dest!: found_snd)
next
  have run: "extrema_1d L expr = and_then (best_min L min_pts) (best_max L max_pts)"
    using assms(1-3) pts by (simp add: extrema_1d_def)
  have lo: "\<exists>lo. best_min L min_pts = (lo, Finished) \<and>
      (min_pts = [] \<longrightarrow> lo = [st_info NoGlobalMinimum]) \<and>
      (min_pts \<noteq> [] \<longrightarrow>
         (\<exists>m\<in>set min_pts. lo = [st_success (GlobalMinimum (snd m) (fst m))] \<and>
            (\<forall>c\<in>set min_pts. \<rho> (snd m) \<le> \<rho> (snd c))))"
  proof (cases "min_pts = []")
    case True
    then show ?thesis by (simp add: best_min_def)
  next
    case False
    from best_min_least [OF lt False] show ?thesis using False by auto
  qed
  have hi: "\<exists>hi. best_max L max_pts = (hi, Finished) \<and>
      (max_pts = [] \<longrightarrow> hi = [st_info NoGlobalMaximum]) \<and>
      (max_pts \<noteq> [] \<longrightarrow>
         (\<exists>m\<in>set max_pts. hi = [st_success (GlobalMaximum (snd m) (fst m))] \<and>
            (\<forall>c\<in>set max_pts. \<rho> (snd c) \<le> \<rho> (snd m))))"
  proof (cases "max_pts = []")
    case True
    then show ?thesis by (simp add: best_max_def)
  next
    case False
    from best_max_greatest [OF gt False] show ?thesis using False by auto
  qed
  from lo hi obtain lo' hi' where
    "best_min L min_pts = (lo', Finished)" "best_max L max_pts = (hi', Finished)"
    and rest: "(min_pts = [] \<longrightarrow> lo' = [st_info NoGlobalMinimum])"
      "(min_pts \<noteq> [] \<longrightarrow>
         (\<exists>m\<in>set min_pts. lo' = [st_success (GlobalMinimum (snd m) (fst m))] \<and>
            (\<forall>c\<in>set min_pts. \<rho> (snd m) \<le> \<rho> (snd c))))"
      "(max_pts = [] \<longrightarrow> hi' = [st_info NoGlobalMaximum])"
      "(max_pts \<noteq> [] \<longrightarrow>
         (\<exists>m\<in>set max_pts. hi' = [st_success (GlobalMaximum (snd m) (fst m))] \<and>
            (\<forall>c\<in>set max_pts. \<rho> (snd c) \<le> \<rho> (snd m))))"
    by blast
  then have "extrema_1d L expr = (lo' @ hi', Finished)" by (simp add: run)
  with rest show "\<exists>lo hi. extrema_1d L expr = (lo @ hi, Finished) \<and>
        (min_pts = [] \<longrightarrow> lo = [st_info NoGlobalMinimum]) \<and>
        (min_pts \<noteq> [] \<longrightarrow>
           (\<exists>m\<in>set min_pts. lo = [st_success (GlobalMinimum (snd m) (fst m))] \<and>
              (\<forall>c\<in>set min_pts. \<rho> (snd m) \<le> \<rho> (snd c)))) \<and>
        (max_pts = [] \<longrightarrow> hi = [st_info NoGlobalMaximum]) \<and>
        (max_pts \<noteq> [] \<longrightarrow>
           (\<exists>m\<in>set max_pts. hi = [st_success (GlobalMaximum (snd m) (fst m))] \<and>
              (\<forall>c\<in>set max_pts. \<rho> (snd c) \<le> \<rho> (snd m))))"
    by blast
qed

lemma excerpt_x_squared:
  "sp_diff excerpt ''x**2'' [''x''] = Inr ''2*x''"
  "sp_diff excerpt ''2*x'' [''x''] = Inr ''2''"
  "sp_solve excerpt ''2*x'' ''x'' = Inr [''0'']"
  "min_max_pts excerpt ''2'' ''x**2'' [''0''] ([], []) = ([(''0'', ''0'')], [])"
  by (simp_all add: excerpt_fields excerpt_diff_def excerpt_solve_def try_point_def
      excerpt_subs_def excerpt_evalf_def excerpt_compare_def excerpt_number_def)

lemma extrema_1d_x_squared:
  "sp_subs excerpt ''2'' ''x'' ''0'' = Inr ''2'' \<and> sp_gt0 excerpt ''2'' = Inr True \<and>
   min_max_pts excerpt ''2'' ''x**2'' [''0''] ([], []) = ([(''0'', ''0'')], []) \<and>
   extrema_1d excerpt ''x**2'' =
     ([st_success (GlobalMinimum ''0'' ''0''), st_info NoGlobalMaximum], Finished)"
proof -
  have lt: "\<forall>a\<in>snd ` set [(''0'', ''0'')]. \<forall>b\<in>snd ` set [(''0'', ''0'')].
      sp_lt excerpt a b = Inr ((if a = ''2'' then 2 else (0::real)) < (if b = ''2'' then 2 else 0))"
    by (simp add: excerpt_fields excerpt_compare_def excerpt_number_def)
  have gt: "\<forall>a\<in>snd ` set []. \<forall>b\<in>snd ` set []. 
      sp_gt excerpt a b = Inr ((if b = ''2'' then 2 else (0::real)) < (if a = ''2'' then 2 else 0))"
    by simp
  from extrema_1d_candidates [where \<rho> = "\<lambda>e. if e = ''2'' then 2 else 0",
      OF excerpt_x_squared lt gt]
  have "\<exists>lo hi. extrema_1d excerpt ''x**2'' = (lo @ hi, Finished) \<and>
      lo = [st_success (GlobalMinimum ''0'' ''0'')] \<and> hi = [st_info NoGlobalMaximum]"
    by simp
  then show ?thesis
    using excerpt_x_squared(4)
    by (auto simp: excerpt_fields excerpt_subs_def excerpt_compare_def excerpt_number_def)
qed


text \<open>
  Nothing in the loop asks whether a critical point is real. Line 89 passes
  \<^verbatim>\<open>domain=sp.S.Reals\<close> to \<^verbatim>\<open>sp.solve\<close>, which is not an option \<^verbatim>\<open>sp.solve\<close> reads,
  and \<open>x\<close> is declared without assumptions: for \<^verbatim>\<open>x**4 + 2*x**2\<close> the equation
  \<open>4*x**3 + 4*x = 0\<close> is answered with \<open>0\<close>, \<open>-I\<close> and \<open>I\<close>. At \<open>-I\<close> and \<open>I\<close> the
  second derivative is the real number \<open>-8\<close> and the value of \<open>f\<close> is \<open>-1\<close>.
\<close>

lemma extrema_complex_roots:
  "extrema_1d excerpt ''x**4 + 2*x**2'' =
     ([st_success (GlobalMinimum ''0'' ''0''),
       st_success (GlobalMaximum ''-1.00000000000000'' ''-I'')], Finished)"
proof -
  have pts: "min_max_pts excerpt ''12*x**2 + 4'' ''x**4 + 2*x**2'' [''0'', ''-I'', ''I''] ([], []) =
      ([(''0'', ''0'')], [(''-I'', ''-1.00000000000000''), (''I'', ''-1.00000000000000'')])"
    by (simp add: try_point_def excerpt_fields excerpt_subs_def excerpt_evalf_def
        excerpt_compare_def excerpt_number_def)
  show ?thesis
    by (simp add: extrema_1d_def excerpt_fields excerpt_diff_def excerpt_solve_def pts
        best_min_def best_max_def excerpt_compare_def excerpt_number_def
        del: min_max_pts.simps)
qed

text \<open>
  C4, on the code: \<^verbatim>\<open>x**4 + 2*x**2\<close> has the one real critical point 0 and no
  maximum on the reals, and the run prints a global maximum \<open>f = -1\<close> at \<open>x = -I\<close>:
  the roots that are not real are candidates like the real one.
\<close>

theorem complex_root_reported_as_maximum:
  "sp_solve excerpt ''4*x**3 + 4*x'' ''x'' = Inr [''0'', ''-I'', ''I''] \<and>
   (\<exists>ys. function_analyzer excerpt ''x**4 + 2*x**2'' =
     ([st_title, st_header ''1D Function Analysis'', st_success ContinuousOverR,
       st_subheader ''Differentiability'', st_success DifferentiableOverR,
       st_subheader ''Derivative'', st_code (DerivativeIs ''4*x**3 + 4*x''),
       st_subheader ''Plot'',
       st_pyplot (LinePlot (np_linspace (- 10) 10 400) ys ''x**4 + 2*x**2''),
       st_subheader ''Behavior at Infinity'',
       st_write (LimitAtPlusInfinity ''oo''), st_write (LimitAtMinusInfinity ''oo''),
       st_subheader ''Global Min / Max'',
       st_success (GlobalMinimum ''0'' ''0''),
       st_success (GlobalMaximum ''-1.00000000000000'' ''-I'')], Finished))"
proof -
  define g where "g = (\<lambda>x. case x of Finite a \<Rightarrow> Finite (a ^ 4 + 2 * a ^ 2) | _ \<Rightarrow> NaN)"
  define xs where "xs = np_linspace (- 10) 10 400"
  have tot: "f_np_quartic [x] = Inr (g x)" if "x \<in> set xs" for x
  proof -
    from that obtain a where "x = Finite a"
      unfolding xs_def using np_linspace_Finite by blast
    then show ?thesis by (simp add: g_def)
  qed
  have plot: "plot_1d excerpt ''x**4 + 2*x**2'' =
      ([st_pyplot (LinePlot xs (map (\<lambda>v. if np_isfinite (g v) then g v else NaN) xs)
          ''x**4 + 2*x**2'')], Finished)"
    by (simp add: plot_1d_def excerpt_fields excerpt_lambdify_def y_vals_total [where g = g] tot
        flip: xs_def)
  have "function_analyzer excerpt ''x**4 + 2*x**2'' =
     ([st_title, st_header ''1D Function Analysis'', st_success ContinuousOverR,
       st_subheader ''Differentiability'', st_success DifferentiableOverR,
       st_subheader ''Derivative'', st_code (DerivativeIs ''4*x**3 + 4*x''),
       st_subheader ''Plot'',
       st_pyplot (LinePlot xs (map (\<lambda>v. if np_isfinite (g v) then g v else NaN) xs)
          ''x**4 + 2*x**2''),
       st_subheader ''Behavior at Infinity'',
       st_write (LimitAtPlusInfinity ''oo''), st_write (LimitAtMinusInfinity ''oo''),
       st_subheader ''Global Min / Max'',
       st_success (GlobalMinimum ''0'' ''0''),
       st_success (GlobalMaximum ''-1.00000000000000'' ''-I'')], Finished)"
    by (simp add: function_analyzer_def vars_used_def analyze_1d_def and_then_say plot
        extrema_complex_roots
        continuity_1d_def differentiability_1d_def derivative_display_def limits_1d_def
        excerpt_fields excerpt_sympify_def excerpt_free_symbols_def excerpt_continuous_domain_def
        excerpt_set_minus_def excerpt_diff_def excerpt_limit_def say_def)
  then show ?thesis
    unfolding xs_def by (auto simp: excerpt_fields excerpt_solve_def)
qed






section \<open>Continuity in the 1D branch\<close>

text \<open>
  C6. Let \<open>den\<close> give the set of reals a SymPy set stands for, such that the
  difference \<^verbatim>\<open>Interval(-oo, oo) - domain\<close> stands for the complement of the domain
  and \<^verbatim>\<open>is_EmptySet\<close> answers whether it is empty. Then the step prints that the
  function is continuous exactly when the domain SymPy computed is all of the reals,
  and otherwise prints the excluded set, which stands for the complement of the
  domain. For \<^verbatim>\<open>1/x\<close> the set printed is \<open>{0}\<close>.
\<close>

theorem continuity_verdict:
  fixes den :: "'s \<Rightarrow> real set"
  assumes "sp_continuous_domain L expr ''x'' = Inr domain"
    and "den (sp_set_minus L (sp_Interval_oo L) domain) = UNIV - den domain"
    and "sp_is_EmptySet L (sp_set_minus L (sp_Interval_oo L) domain) \<longleftrightarrow>
         den (sp_set_minus L (sp_Interval_oo L) domain) = {}"
  shows
    "(den domain = UNIV \<longrightarrow> continuity_1d L expr = ([st_success ContinuousOverR], Finished)) \<and>
     (den domain \<noteq> UNIV \<longrightarrow>
        (\<exists>excluded. continuity_1d L expr = ([st_warning (DiscontinuousAt excluded)], Finished) \<and>
           den excluded = - den domain))"
  using assms by (auto simp: continuity_1d_def Let_def)

theorem continuity_verdict_witness:
  "sp_continuous_domain excerpt ''1/x'' ''x'' =
      Inr ''Union(Interval.open(-oo, 0), Interval.open(0, oo))'' \<and>
   continuity_1d excerpt ''1/x'' = ([st_warning (DiscontinuousAt ''{0}'')], Finished)"
proof -
  define den :: "string \<Rightarrow> real set" where
    "den = (\<lambda>s. if s = ''{0}'' then {0} else UNIV - {0})"
  have dom: "sp_continuous_domain excerpt ''1/x'' ''x'' =
      Inr ''Union(Interval.open(-oo, 0), Interval.open(0, oo))''"
    by (simp add: excerpt_fields excerpt_continuous_domain_def)
  have minus: "sp_set_minus excerpt (sp_Interval_oo excerpt)
      ''Union(Interval.open(-oo, 0), Interval.open(0, oo))'' = ''{0}''"
    by (simp add: excerpt_fields excerpt_set_minus_def)
  have h1: "den (sp_set_minus excerpt (sp_Interval_oo excerpt)
        ''Union(Interval.open(-oo, 0), Interval.open(0, oo))'') =
      UNIV - den ''Union(Interval.open(-oo, 0), Interval.open(0, oo))''"
    unfolding minus by (auto simp: den_def)
  have h2: "sp_is_EmptySet excerpt (sp_set_minus excerpt (sp_Interval_oo excerpt)
        ''Union(Interval.open(-oo, 0), Interval.open(0, oo))'') \<longleftrightarrow>
      den (sp_set_minus excerpt (sp_Interval_oo excerpt)
        ''Union(Interval.open(-oo, 0), Interval.open(0, oo))'') = {}"
    unfolding minus by (simp add: den_def excerpt_fields)
  have ne: "den ''Union(Interval.open(-oo, 0), Interval.open(0, oo))'' \<noteq> UNIV"
    by (auto simp: den_def)
  from continuity_verdict [of excerpt "''1/x''" _ den, OF dom h1 h2] ne
  obtain excluded where "continuity_1d excerpt ''1/x'' = ([st_warning (DiscontinuousAt excluded)], Finished)"
    by blast
  moreover have "continuity_1d excerpt ''1/x'' = ([st_warning (DiscontinuousAt ''{0}'')], Finished)"
    by (simp add: continuity_1d_def excerpt_fields excerpt_continuous_domain_def
        excerpt_set_minus_def)
  ultimately show ?thesis using dom by simp
qed


section \<open>Critical points in the 2D branch\<close>

lemma kind_at_value:
  fixes \<rho> :: "'e \<Rightarrow> real"
  assumes "sp_subs_dict L f_xx pt = Inr a" and "sp_subs_dict L f_xy pt = Inr b"
    and "sp_subs_dict L f_yy pt = Inr d" and "sp_det2 L a b b d = Inr D"
    and "sp_subs_dict L expr pt = Inr at_pt" and "sp_evalf L at_pt = Inr val"
    and "sp_gt0 L D = Inr (0 < \<rho> D)" and "sp_lt0 L D = Inr (\<rho> D < 0)"
    and "0 < \<rho> D \<longrightarrow> sp_gt0 L a = Inr (0 < \<rho> a)"
  shows "kind_at L expr f_xx f_yy f_xy pt =
     Some (val, if 0 < \<rho> D \<and> 0 < \<rho> a then ''Local Min''
                else if 0 < \<rho> D \<and> \<rho> a \<le> 0 then ''Local Max''
                else if \<rho> D < 0 then ''Saddle Point''
                else ''Inconclusive'')"
  using assms by (auto simp: kind_at_def)

lemma classify_point_raise:
  assumes "sp_subs_dict L f_xx pt = Inl e \<or> sp_subs_dict L f_xy pt = Inl e \<or>
     sp_subs_dict L f_yy pt = Inl e \<or>
     (sp_subs_dict L f_xx pt = Inr a \<and> sp_subs_dict L f_xy pt = Inr b \<and>
      sp_subs_dict L f_yy pt = Inr d \<and>
        (sp_det2 L a b b d = Inl e \<or>
         (sp_det2 L a b b d = Inr D \<and>
            (sp_gt0 L D = Inl e \<or> (sp_gt0 L D = Inr True \<and> sp_gt0 L a = Inl e) \<or>
             (sp_gt0 L D = Inr False \<and> sp_lt0 L D = Inl e))))) \<or>
     sp_subs_dict L expr pt = Inl e \<or>
     (sp_subs_dict L expr pt = Inr at_pt \<and>
        (sp_evalf L at_pt = Inl e \<or> (sp_evalf L at_pt = Inr val \<and> sp_format4f L val = Inl e)))"
  shows "classify_point L expr f_xx f_yy f_xy pt = st_warning (CouldNotClassify pt)"
  using assms
  by (auto simp: classify_point_def kind_at_def split: Option.bind_splits option.splits if_splits)

text \<open>
  C5. Let the gradient, \<^verbatim>\<open>sp.solve\<close> and the three second derivatives return, with
  at least one critical point, and let \<open>\<rho>\<close> give the real number a SymPy value
  stands for. The step prints one line per critical point, in the order of the
  solutions, and each line depends on its own point only. Where the Hessian, its
  determinant \<open>D\<close>, the value of \<open>f\<close> and its format evaluate and SymPy decides the
  signs, the line names the kind: Local Min for \<open>D > 0\<close> and \<open>f_xx > 0\<close>, Local Max
  for \<open>D > 0\<close> and \<open>f_xx \<le> 0\<close>, Saddle Point for \<open>D < 0\<close>, Inconclusive for
  \<open>D = 0\<close>. Where a library call made for the point raises (a substitution into a
  second derivative or into \<open>f\<close>, the determinant, a comparison that is reached, the
  numeric value or its format), the line of that point is the warning that it could
  not be classified, and the lines of the other points are as they would be without
  it. For \<^verbatim>\<open>x**2 - y**2\<close> the one critical point \<open>(0, 0)\<close> is a Saddle Point. For
  \<^verbatim>\<open>x**5/5 - x + y**2\<close> the solutions are \<open>x = -1, 1, -I, I\<close> with \<open>y = 0\<close>: the
  first two are classified, and at the last two the determinant is \<open>8*I\<close> and
  \<open>-8*I\<close>, the comparison with zero raises TypeError, and each gets the warning.
\<close>

theorem hessian_classification:
  fixes \<rho> :: "'e \<Rightarrow> real"
  assumes "sp_diff L expr [''x''] = Inr g_x" and "sp_diff L expr [''y''] = Inr g_y"
    and "sp_solve_dict L [g_x, g_y] [''x'', ''y''] = Inr crit_pts" and "crit_pts \<noteq> []"
    and "sp_diff L expr [''x'', ''x''] = Inr f_xx" and "sp_diff L expr [''y'', ''y''] = Inr f_yy"
    and "sp_diff L expr [''x'', ''y''] = Inr f_xy"
  shows
    "critical_points_2d L expr = map (classify_point L expr f_xx f_yy f_xy) crit_pts \<and>
     (\<forall>pt\<in>set crit_pts. \<forall>a b d D at_pt val shown.
        sp_subs_dict L f_xx pt = Inr a \<and> sp_subs_dict L f_xy pt = Inr b \<and>
        sp_subs_dict L f_yy pt = Inr d \<and> sp_det2 L a b b d = Inr D \<and>
        sp_subs_dict L expr pt = Inr at_pt \<and> sp_evalf L at_pt = Inr val \<and>
        sp_format4f L val = Inr shown \<and>
        sp_gt0 L D = Inr (0 < \<rho> D) \<and> sp_lt0 L D = Inr (\<rho> D < 0) \<and>
        (0 < \<rho> D \<longrightarrow> sp_gt0 L a = Inr (0 < \<rho> a)) \<longrightarrow>
          classify_point L expr f_xx f_yy f_xy pt =
            st_write (ClassifiedAt pt shown
              (if 0 < \<rho> D \<and> 0 < \<rho> a then ''Local Min''
               else if 0 < \<rho> D \<and> \<rho> a \<le> 0 then ''Local Max''
               else if \<rho> D < 0 then ''Saddle Point''
               else ''Inconclusive''))) \<and>
     (\<forall>pt\<in>set crit_pts. \<forall>a b d D at_pt val e.
        sp_subs_dict L f_xx pt = Inl e \<or> sp_subs_dict L f_xy pt = Inl e \<or>
        sp_subs_dict L f_yy pt = Inl e \<or>
        (sp_subs_dict L f_xx pt = Inr a \<and> sp_subs_dict L f_xy pt = Inr b \<and>
         sp_subs_dict L f_yy pt = Inr d \<and>
           (sp_det2 L a b b d = Inl e \<or>
            (sp_det2 L a b b d = Inr D \<and>
               (sp_gt0 L D = Inl e \<or> (sp_gt0 L D = Inr True \<and> sp_gt0 L a = Inl e) \<or>
                (sp_gt0 L D = Inr False \<and> sp_lt0 L D = Inl e))))) \<or>
        sp_subs_dict L expr pt = Inl e \<or>
        (sp_subs_dict L expr pt = Inr at_pt \<and>
           (sp_evalf L at_pt = Inl e \<or>
            (sp_evalf L at_pt = Inr val \<and> sp_format4f L val = Inl e))) \<longrightarrow>
          classify_point L expr f_xx f_yy f_xy pt = st_warning (CouldNotClassify pt))"
proof (intro conjI ballI allI impI)
  show "critical_points_2d L expr = map (classify_point L expr f_xx f_yy f_xy) crit_pts"
    using assms by (simp add: critical_points_2d_def)
next
  fix pt a b d D at_pt val shown
  assume h: "sp_subs_dict L f_xx pt = Inr a \<and> sp_subs_dict L f_xy pt = Inr b \<and>
        sp_subs_dict L f_yy pt = Inr d \<and> sp_det2 L a b b d = Inr D \<and>
        sp_subs_dict L expr pt = Inr at_pt \<and> sp_evalf L at_pt = Inr val \<and>
        sp_format4f L val = Inr shown \<and>
        sp_gt0 L D = Inr (0 < \<rho> D) \<and> sp_lt0 L D = Inr (\<rho> D < 0) \<and>
        (0 < \<rho> D \<longrightarrow> sp_gt0 L a = Inr (0 < \<rho> a))"
  then have "kind_at L expr f_xx f_yy f_xy pt =
     Some (val, if 0 < \<rho> D \<and> 0 < \<rho> a then ''Local Min''
                else if 0 < \<rho> D \<and> \<rho> a \<le> 0 then ''Local Max''
                else if \<rho> D < 0 then ''Saddle Point''
                else ''Inconclusive'')"
    by (intro kind_at_value) blast+
  with h show "classify_point L expr f_xx f_yy f_xy pt =
            st_write (ClassifiedAt pt shown
              (if 0 < \<rho> D \<and> 0 < \<rho> a then ''Local Min''
               else if 0 < \<rho> D \<and> \<rho> a \<le> 0 then ''Local Max''
               else if \<rho> D < 0 then ''Saddle Point''
               else ''Inconclusive''))"
    by (simp add: classify_point_def)
next
  fix pt a b d D at_pt val e
  assume "sp_subs_dict L f_xx pt = Inl e \<or> sp_subs_dict L f_xy pt = Inl e \<or>
        sp_subs_dict L f_yy pt = Inl e \<or>
        (sp_subs_dict L f_xx pt = Inr a \<and> sp_subs_dict L f_xy pt = Inr b \<and>
         sp_subs_dict L f_yy pt = Inr d \<and>
           (sp_det2 L a b b d = Inl e \<or>
            (sp_det2 L a b b d = Inr D \<and>
               (sp_gt0 L D = Inl e \<or> (sp_gt0 L D = Inr True \<and> sp_gt0 L a = Inl e) \<or>
                (sp_gt0 L D = Inr False \<and> sp_lt0 L D = Inl e))))) \<or>
        sp_subs_dict L expr pt = Inl e \<or>
        (sp_subs_dict L expr pt = Inr at_pt \<and>
           (sp_evalf L at_pt = Inl e \<or>
            (sp_evalf L at_pt = Inr val \<and> sp_format4f L val = Inl e)))"
  then show "classify_point L expr f_xx f_yy f_xy pt = st_warning (CouldNotClassify pt)"
    by (rule classify_point_raise)
qed

lemma excerpt_saddle:
  "sp_diff excerpt ''x**2 - y**2'' [''x''] = Inr ''2*x''"
  "sp_diff excerpt ''x**2 - y**2'' [''y''] = Inr ''-2*y''"
  "sp_solve_dict excerpt [''2*x'', ''-2*y''] [''x'', ''y''] = Inr [[(''x'', ''0''), (''y'', ''0'')]]"
  "[[(''x'', ''0''), (''y'', ''0'')]] \<noteq> []"
  "sp_diff excerpt ''x**2 - y**2'' [''x'', ''x''] = Inr ''2''"
  "sp_diff excerpt ''x**2 - y**2'' [''y'', ''y''] = Inr ''-2''"
  "sp_diff excerpt ''x**2 - y**2'' [''x'', ''y''] = Inr ''0''"
  by (simp_all add: excerpt_fields excerpt_diff_def excerpt_solve_dict_def)

lemma excerpt_saddle_point:
  "sp_subs_dict excerpt ''2'' [(''x'', ''0''), (''y'', ''0'')] = Inr ''2''"
  "sp_subs_dict excerpt ''0'' [(''x'', ''0''), (''y'', ''0'')] = Inr ''0''"
  "sp_subs_dict excerpt ''-2'' [(''x'', ''0''), (''y'', ''0'')] = Inr ''-2''"
  "sp_det2 excerpt ''2'' ''0'' ''0'' ''-2'' = Inr ''-4''"
  "sp_subs_dict excerpt ''x**2 - y**2'' [(''x'', ''0''), (''y'', ''0'')] = Inr ''0''"
  "sp_evalf excerpt ''0'' = Inr ''0''"
  "sp_format4f excerpt ''0'' = Inr ''0.0000''"
  "sp_gt0 excerpt ''-4'' = Inr False"
  "sp_lt0 excerpt ''-4'' = Inr True"
  by (simp_all add: excerpt_fields excerpt_subs_dict_def excerpt_det2_def excerpt_evalf_def
      excerpt_format4f_def excerpt_compare_def excerpt_number_def)

lemma excerpt_quintic:
  "sp_diff excerpt ''x**5/5 - x + y**2'' [''x''] = Inr ''x**4 - 1''"
  "sp_diff excerpt ''x**5/5 - x + y**2'' [''y''] = Inr ''2*y''"
  "sp_solve_dict excerpt [''x**4 - 1'', ''2*y''] [''x'', ''y''] =
     Inr [[(''x'', ''-1''), (''y'', ''0'')], [(''x'', ''1''), (''y'', ''0'')],
          [(''x'', ''-I''), (''y'', ''0'')], [(''x'', ''I''), (''y'', ''0'')]]"
  "[[(''x'', ''-1''), (''y'', ''0'')], [(''x'', ''1''), (''y'', ''0'')],
    [(''x'', ''-I''), (''y'', ''0'')], [(''x'', ''I''), (''y'', ''0'')]] \<noteq> []"
  "sp_diff excerpt ''x**5/5 - x + y**2'' [''x'', ''x''] = Inr ''4*x**3''"
  "sp_diff excerpt ''x**5/5 - x + y**2'' [''y'', ''y''] = Inr ''2''"
  "sp_diff excerpt ''x**5/5 - x + y**2'' [''x'', ''y''] = Inr ''0''"
  by (simp_all add: excerpt_fields excerpt_diff_def excerpt_solve_dict_def)

lemma excerpt_quintic_points:
  "sp_subs_dict excerpt ''4*x**3'' [(''x'', ''-1''), (''y'', ''0'')] = Inr ''-4''"
  "sp_subs_dict excerpt ''4*x**3'' [(''x'', ''1''), (''y'', ''0'')] = Inr ''4''"
  "sp_subs_dict excerpt ''4*x**3'' [(''x'', ''-I''), (''y'', ''0'')] = Inr ''4*I''"
  "sp_subs_dict excerpt ''4*x**3'' [(''x'', ''I''), (''y'', ''0'')] = Inr ''-4*I''"
  "sp_subs_dict excerpt ''0'' [(''x'', ''-1''), (''y'', ''0'')] = Inr ''0''"
  "sp_subs_dict excerpt ''0'' [(''x'', ''1''), (''y'', ''0'')] = Inr ''0''"
  "sp_subs_dict excerpt ''0'' [(''x'', ''-I''), (''y'', ''0'')] = Inr ''0''"
  "sp_subs_dict excerpt ''0'' [(''x'', ''I''), (''y'', ''0'')] = Inr ''0''"
  "sp_subs_dict excerpt ''2'' [(''x'', ''-1''), (''y'', ''0'')] = Inr ''2''"
  "sp_subs_dict excerpt ''2'' [(''x'', ''1''), (''y'', ''0'')] = Inr ''2''"
  "sp_subs_dict excerpt ''2'' [(''x'', ''-I''), (''y'', ''0'')] = Inr ''2''"
  "sp_subs_dict excerpt ''2'' [(''x'', ''I''), (''y'', ''0'')] = Inr ''2''"
  "sp_det2 excerpt ''-4'' ''0'' ''0'' ''2'' = Inr ''-8''"
  "sp_det2 excerpt ''4'' ''0'' ''0'' ''2'' = Inr ''8''"
  "sp_det2 excerpt ''4*I'' ''0'' ''0'' ''2'' = Inr ''8*I''"
  "sp_det2 excerpt ''-4*I'' ''0'' ''0'' ''2'' = Inr ''-8*I''"
  "sp_subs_dict excerpt ''x**5/5 - x + y**2'' [(''x'', ''-1''), (''y'', ''0'')] = Inr ''4/5''"
  "sp_subs_dict excerpt ''x**5/5 - x + y**2'' [(''x'', ''1''), (''y'', ''0'')] = Inr ''-4/5''"
  "sp_evalf excerpt ''4/5'' = Inr ''0.800000000000000''"
  "sp_evalf excerpt ''-4/5'' = Inr ''-0.800000000000000''"
  "sp_format4f excerpt ''0.800000000000000'' = Inr ''0.8000''"
  "sp_format4f excerpt ''-0.800000000000000'' = Inr ''-0.8000''"
  "sp_gt0 excerpt ''-8'' = Inr False" "sp_lt0 excerpt ''-8'' = Inr True"
  "sp_gt0 excerpt ''8'' = Inr True" "sp_lt0 excerpt ''8'' = Inr False"
  "sp_gt0 excerpt ''4'' = Inr True"
  "sp_gt0 excerpt ''8*I'' = Inl ''TypeError''"
  "sp_gt0 excerpt ''-8*I'' = Inl ''TypeError''"
  by (simp_all add: excerpt_fields excerpt_subs_dict_def excerpt_det2_def excerpt_evalf_def
      excerpt_format4f_def excerpt_compare_def excerpt_number_def)

theorem hessian_classification_witness:
  "critical_points_2d excerpt ''x**2 - y**2'' =
     [st_write (ClassifiedAt [(''x'', ''0''), (''y'', ''0'')] ''0.0000'' ''Saddle Point'')] \<and>
   sp_det2 excerpt ''4*I'' ''0'' ''0'' ''2'' = Inr ''8*I'' \<and>
   sp_gt0 excerpt ''8*I'' = Inl ''TypeError'' \<and>
   critical_points_2d excerpt ''x**5/5 - x + y**2'' =
     [st_write (ClassifiedAt [(''x'', ''-1''), (''y'', ''0'')] ''0.8000'' ''Saddle Point''),
      st_write (ClassifiedAt [(''x'', ''1''), (''y'', ''0'')] ''-0.8000'' ''Local Min''),
      st_warning (CouldNotClassify [(''x'', ''-I''), (''y'', ''0'')]),
      st_warning (CouldNotClassify [(''x'', ''I''), (''y'', ''0'')])]"
proof -
  let ?\<rho> = "\<lambda>e. if e = ''-4'' then - 4 else if e = ''4'' then 4
      else if e = ''8'' then 8 else if e = ''-8'' then - 8 else (0::real)"
  note h = hessian_classification [where \<rho> = ?\<rho>, OF excerpt_saddle]
  have run: "critical_points_2d excerpt ''x**2 - y**2'' =
      [classify_point excerpt ''x**2 - y**2'' ''2'' ''-2'' ''0'' [(''x'', ''0''), (''y'', ''0'')]]"
    using h [THEN conjunct1] by simp
  have saddle: "classify_point excerpt ''x**2 - y**2'' ''2'' ''-2'' ''0'' [(''x'', ''0''), (''y'', ''0'')] =
      st_write (ClassifiedAt [(''x'', ''0''), (''y'', ''0'')] ''0.0000''
        (if 0 < ?\<rho> ''-4'' \<and> 0 < ?\<rho> ''2'' then ''Local Min''
         else if 0 < ?\<rho> ''-4'' \<and> ?\<rho> ''2'' \<le> 0 then ''Local Max''
         else if ?\<rho> ''-4'' < 0 then ''Saddle Point''
         else ''Inconclusive''))"
    by (rule h [THEN conjunct2, THEN conjunct1, rule_format,
          of "[(''x'', ''0''), (''y'', ''0'')]" "''2''" "''0''" "''-2''" "''-4''" "''0''" "''0''"
             "''0.0000''"])
       (simp_all add: excerpt_saddle_point)
  note q = hessian_classification [where \<rho> = ?\<rho>, OF excerpt_quintic]
  have run4: "critical_points_2d excerpt ''x**5/5 - x + y**2'' =
      map (classify_point excerpt ''x**5/5 - x + y**2'' ''4*x**3'' ''2'' ''0'')
        [[(''x'', ''-1''), (''y'', ''0'')], [(''x'', ''1''), (''y'', ''0'')],
         [(''x'', ''-I''), (''y'', ''0'')], [(''x'', ''I''), (''y'', ''0'')]]"
    using q [THEN conjunct1] .
  have p1: "classify_point excerpt ''x**5/5 - x + y**2'' ''4*x**3'' ''2'' ''0''
        [(''x'', ''-1''), (''y'', ''0'')] =
      st_write (ClassifiedAt [(''x'', ''-1''), (''y'', ''0'')] ''0.8000''
        (if 0 < ?\<rho> ''-8'' \<and> 0 < ?\<rho> ''-4'' then ''Local Min''
         else if 0 < ?\<rho> ''-8'' \<and> ?\<rho> ''-4'' \<le> 0 then ''Local Max''
         else if ?\<rho> ''-8'' < 0 then ''Saddle Point''
         else ''Inconclusive''))"
    by (rule q [THEN conjunct2, THEN conjunct1, rule_format,
          of "[(''x'', ''-1''), (''y'', ''0'')]" "''-4''" "''0''" "''2''" "''-8''" "''4/5''"
             "''0.800000000000000''" "''0.8000''"])
       (simp_all add: excerpt_quintic_points)
  have p2: "classify_point excerpt ''x**5/5 - x + y**2'' ''4*x**3'' ''2'' ''0''
        [(''x'', ''1''), (''y'', ''0'')] =
      st_write (ClassifiedAt [(''x'', ''1''), (''y'', ''0'')] ''-0.8000''
        (if 0 < ?\<rho> ''8'' \<and> 0 < ?\<rho> ''4'' then ''Local Min''
         else if 0 < ?\<rho> ''8'' \<and> ?\<rho> ''4'' \<le> 0 then ''Local Max''
         else if ?\<rho> ''8'' < 0 then ''Saddle Point''
         else ''Inconclusive''))"
    by (rule q [THEN conjunct2, THEN conjunct1, rule_format,
          of "[(''x'', ''1''), (''y'', ''0'')]" "''4''" "''0''" "''2''" "''8''" "''-4/5''"
             "''-0.800000000000000''" "''-0.8000''"])
       (simp_all add: excerpt_quintic_points)
  have p3: "classify_point excerpt ''x**5/5 - x + y**2'' ''4*x**3'' ''2'' ''0''
        [(''x'', ''-I''), (''y'', ''0'')] = st_warning (CouldNotClassify [(''x'', ''-I''), (''y'', ''0'')])"
    by (rule q [THEN conjunct2, THEN conjunct2, rule_format,
          of "[(''x'', ''-I''), (''y'', ''0'')]" "''TypeError''" "''4*I''" "''0''" "''2''" "''8*I''"
             "''4*I/5''" "''0.8*I''"])
       (simp_all add: excerpt_quintic_points)
  have p4: "classify_point excerpt ''x**5/5 - x + y**2'' ''4*x**3'' ''2'' ''0''
        [(''x'', ''I''), (''y'', ''0'')] = st_warning (CouldNotClassify [(''x'', ''I''), (''y'', ''0'')])"
    by (rule q [THEN conjunct2, THEN conjunct2, rule_format,
          of "[(''x'', ''I''), (''y'', ''0'')]" "''TypeError''" "''-4*I''" "''0''" "''2''" "''-8*I''"
             "''-4*I/5''" "''-0.8*I''"])
       (simp_all add: excerpt_quintic_points)
  show ?thesis
    using saddle p1 p2 p3 p4
    by (simp add: run run4 excerpt_saddle_point excerpt_quintic_points)
qed

end
